theory Spec2Isabelle
  imports Main
begin

section \<open>JavaScript values used by the room state\<close>

text \<open>
  The timer fields of a room hold \<^verbatim>\<open>null\<close> (before the first round), \<^verbatim>\<open>undefined\<close>
  (a deleted or never written property) or a number. The numbers of the program are
  whole seconds and milliseconds far below \<open>2 ^ 53\<close>, where JavaScript arithmetic is exact:
  they are integers here. \<^verbatim>\<open>NaN\<close> is what arithmetic on \<^verbatim>\<open>undefined\<close> yields.
\<close>

datatype jsnum = Null | Undefined | NaN | Num int

text \<open>\<^verbatim>\<open>ToNumber\<close>: \<^verbatim>\<open>null\<close> is 0, \<^verbatim>\<open>undefined\<close> is \<^verbatim>\<open>NaN\<close> (written \<open>None\<close>).\<close>

fun toNumber :: "jsnum \<Rightarrow> int option" where
  "toNumber Null = Some 0"
| "toNumber Undefined = None"
| "toNumber NaN = None"
| "toNumber (Num n) = Some n"

definition js_sub :: "jsnum \<Rightarrow> jsnum \<Rightarrow> jsnum" where
  "js_sub a b = (case toNumber a of None \<Rightarrow> NaN
                 | Some x \<Rightarrow> (case toNumber b of None \<Rightarrow> NaN | Some y \<Rightarrow> Num (x - y)))"

definition js_mul :: "jsnum \<Rightarrow> jsnum \<Rightarrow> jsnum" where
  "js_mul a b = (case toNumber a of None \<Rightarrow> NaN
                 | Some x \<Rightarrow> (case toNumber b of None \<Rightarrow> NaN | Some y \<Rightarrow> Num (x * y)))"

text \<open>\<^verbatim>\<open>Math.floor(a / 1000)\<close>; \<open>div\<close> on \<open>int\<close> rounds towards minus infinity, as \<^verbatim>\<open>Math.floor\<close> does.\<close>

definition js_floor_div1000 :: "jsnum \<Rightarrow> jsnum" where
  "js_floor_div1000 a = (case toNumber a of None \<Rightarrow> NaN | Some x \<Rightarrow> Num (x div 1000))"

text \<open>\<^verbatim>\<open>Math.max(0, a)\<close>.\<close>

definition js_max0 :: "jsnum \<Rightarrow> jsnum" where
  "js_max0 a = (case toNumber a of None \<Rightarrow> NaN | Some x \<Rightarrow> Num (max 0 x))"

text \<open>\<^verbatim>\<open>a <= 0\<close>: false on \<^verbatim>\<open>NaN\<close>.\<close>

definition js_le0 :: "jsnum \<Rightarrow> bool" where
  "js_le0 a = (case toNumber a of None \<Rightarrow> False | Some x \<Rightarrow> x \<le> 0)"

subsection \<open>Strings\<close>

text \<open>
  Strings are lists of code units below 256. \<open>isSpace\<close> is the white space of
  \<^verbatim>\<open>\s\<close> and of \<^verbatim>\<open>String.prototype.trim\<close> in that range.
\<close>

definition isSpace :: "char \<Rightarrow> bool" where
  "isSpace c = (c \<in> set [CHR 0x20, CHR 0x09, CHR 0x0A, CHR 0x0B, CHR 0x0C, CHR 0x0D, CHR 0xA0])"

definition trim :: "string \<Rightarrow> string" where
  "trim s = rev (dropWhile isSpace (rev (dropWhile isSpace s)))"

text \<open>\<^verbatim>\<open>s.includes(sub)\<close>.\<close>

fun includes_str :: "string \<Rightarrow> string \<Rightarrow> bool" where
  "includes_str [] sub = (sub = [])"
| "includes_str (c # cs) sub = (take (length sub) (c # cs) = sub \<or> includes_str cs sub)"

text \<open>\<^verbatim>\<open>parts.join(sep)\<close>.\<close>

fun join :: "string list \<Rightarrow> string \<Rightarrow> string" where
  "join [] sep = []"
| "join [x] sep = x"
| "join (x # y # ys) sep = x @ sep @ join (y # ys) sep"

subsection \<open>\<^verbatim>\<open>Map\<close> and \<^verbatim>\<open>Set\<close>\<close>

text \<open>
  A JavaScript \<^verbatim>\<open>Map\<close> iterates in insertion order, so it is an association list:
  \<^verbatim>\<open>set\<close> on a present key replaces the value in place, on a new key it appends.
\<close>

definition Map_get :: "('k \<times> 'v) list \<Rightarrow> 'k \<Rightarrow> 'v option" where
  "Map_get m k = map_of m k"

definition Map_has :: "('k \<times> 'v) list \<Rightarrow> 'k \<Rightarrow> bool" where
  "Map_has m k = (map_of m k \<noteq> None)"

fun Map_set :: "('k \<times> 'v) list \<Rightarrow> 'k \<Rightarrow> 'v \<Rightarrow> ('k \<times> 'v) list" where
  "Map_set [] k v = [(k, v)]"
| "Map_set ((k', v') # m) k v = (if k' = k then (k, v) # m else (k', v') # Map_set m k v)"

definition Map_delete :: "('k \<times> 'v) list \<Rightarrow> 'k \<Rightarrow> ('k \<times> 'v) list" where
  "Map_delete m k = filter (\<lambda>kv. fst kv \<noteq> k) m"

definition Map_keys :: "('k \<times> 'v) list \<Rightarrow> 'k list" where
  "Map_keys m = map fst m"

definition Map_values :: "('k \<times> 'v) list \<Rightarrow> 'v list" where
  "Map_values m = map snd m"

definition Set_has :: "'a list \<Rightarrow> 'a \<Rightarrow> bool" where
  "Set_has s x = (x \<in> set s)"

definition Set_add :: "'a list \<Rightarrow> 'a \<Rightarrow> 'a list" where
  "Set_add s x = (if x \<in> set s then s else s @ [x])"

section \<open>The data model of \<^verbatim>\<open>gameState.js\<close>\<close>

text \<open>
  The module that \<^verbatim>\<open>socketHandlers.js\<close> requires as \<^verbatim>\<open>./gameState\<close>. A player, a vote and a
  room are the object literals of \<^verbatim>\<open>createRoom\<close>, \<^verbatim>\<open>addPlayerToRoom\<close> and \<^verbatim>\<open>handleBuzz\<close>.
  Left out are the room's \<^verbatim>\<open>currentBug\<close>, which is never written after creation, and its
  \<^verbatim>\<open>emptyTimeout\<close> handle; the timeout itself is an event of the runs below.
\<close>

record player =
  id_player :: string
  name :: string
  isHost :: bool
  isReady :: bool
  role :: "string option"
  disabled :: bool

record buzzVote =
  initiatorId :: string
  initiatorName :: string
  type_vote :: string
  votes :: "(string \<times> string) list"
  skips :: "string list"
  startTime :: int
  duration :: int

record bug =
  id_bug :: string
  description :: string
  location :: string
  difficulty :: string

text \<open>
  \<open>currentCode\<close> is the object \<^verbatim>\<open>startRound\<close> builds from the sample, with the fields the
  handlers read or write; \<open>buggedCode\<close> is the property the \<^verbatim>\<open>submitBug\<close> handler adds.
\<close>

record currentCode =
  correctCode :: string
  initialBuggyCode :: string
  bugAssignments :: "(string \<times> bug) list"
  buggedCode :: "string option"

datatype gameState = lobby | playing | results

text \<open>
  \<open>timerPaused\<close> and \<open>pausedTimeRemaining\<close> are the properties the round timer of
  \<^verbatim>\<open>socketHandlers.js\<close> adds to the room; an absent \<open>timerPaused\<close> is falsy.
\<close>

record room =
  code :: string
  hostId :: "string option"
  players :: "(string \<times> player) list"
  gameState :: gameState
  currentRound :: int
  totalRounds :: int
  roundStartTime :: jsnum
  roundDuration :: int
  currentCode :: "currentCode option"
  bugger :: "string option"
  debuggers :: "string list"
  buzzedPlayer :: "string option"
  activeVote :: "buzzVote option"
  winner :: "string option"
  winReason :: "string option"
  createdAt :: int
  timerPaused :: bool
  pausedTimeRemaining :: jsnum

text \<open>The module-level registry \<^verbatim>\<open>rooms\<close>, keyed by room code.\<close>

type_synonym rooms = "string \<rightharpoonup> room"

text \<open>
  What a call hands back: \<^verbatim>\<open>null\<close>, an \<^verbatim>\<open>{ error }\<close> object, a value, or an uncaught
  \<^verbatim>\<open>TypeError\<close> (a property read on \<^verbatim>\<open>undefined\<close>). The registry is returned beside it,
  with whatever had been written before the call ended.
\<close>

datatype 'a ret = RetNull | Error string | Ret 'a | TypeError

section \<open>Room registry\<close>

definition createRoom :: "rooms \<Rightarrow> string \<Rightarrow> string \<Rightarrow> string \<Rightarrow> int \<Rightarrow> room \<times> rooms" where
  "createRoom rs roomCode hostId' hostName now =
     (let r = \<lparr> code = roomCode, hostId = Some hostId',
                players = [(hostId', \<lparr> id_player = hostId', name = hostName, isHost = True,
                                       isReady = False, role = None, disabled = False \<rparr>)],
                gameState = lobby, currentRound = 0, totalRounds = 1,
                roundStartTime = Null, roundDuration = 90, currentCode = None,
                bugger = None, debuggers = [], buzzedPlayer = None, activeVote = None,
                winner = None, winReason = None, createdAt = now,
                timerPaused = False, pausedTimeRemaining = Undefined \<rparr>
      in (r, rs(roomCode \<mapsto> r)))"

definition getRoom :: "rooms \<Rightarrow> string \<Rightarrow> room option" where
  "getRoom rs roomCode = rs roomCode"

definition addPlayerToRoom :: "rooms \<Rightarrow> string \<Rightarrow> string \<Rightarrow> string \<Rightarrow> room ret \<times> rooms" where
  "addPlayerToRoom rs roomCode playerId playerName =
     (case rs roomCode of
        None \<Rightarrow> (RetNull, rs)
      | Some r \<Rightarrow>
          if length (players r) \<ge> 6 then (Error ''Room is full'', rs)
          else if gameState r \<noteq> lobby then (Error ''Game already in progress'', rs)
          else
            let isFirstPlayer = (length (players r) = 0);
                r1 = r\<lparr> players := Map_set (players r) playerId
                         \<lparr> id_player = playerId, name = playerName, isHost = isFirstPlayer,
                           isReady = False, role = None, disabled = False \<rparr> \<rparr>;
                r2 = (if isFirstPlayer then r1\<lparr> hostId := Some playerId \<rparr> else r1)
            in (Ret r2, rs(roomCode \<mapsto> r2)))"

definition removePlayerFromRoom :: "rooms \<Rightarrow> string \<Rightarrow> string \<Rightarrow> room option \<times> rooms" where
  "removePlayerFromRoom rs roomCode playerId =
     (case rs roomCode of
        None \<Rightarrow> (None, rs)
      | Some r \<Rightarrow>
          let r1 = r\<lparr> players := Map_delete (players r) playerId \<rparr>;
              r2 = (if hostId r1 = Some playerId then
                      (case players r1 of
                         [] \<Rightarrow> r1\<lparr> hostId := None \<rparr>
                       | (k, newHost) # rest \<Rightarrow>
                           r1\<lparr> players := (k, newHost\<lparr> isHost := True \<rparr>) # rest,
                               hostId := Some (id_player newHost) \<rparr>)
                    else r1)
          in (Some r2, rs(roomCode \<mapsto> r2)))"

subsection \<open>Roles and rounds\<close>

text \<open>
  \<^verbatim>\<open>room.players.get(id).role = r\<close>: a \<^verbatim>\<open>TypeError\<close> when the id is not a key.
\<close>

definition setRole :: "(string \<times> player) list \<Rightarrow> string option \<Rightarrow> string \<Rightarrow> (string \<times> player) list option" where
  "setRole ps k r =
     (case k of None \<Rightarrow> None
      | Some i \<Rightarrow> (case Map_get ps i of None \<Rightarrow> None
                   | Some p \<Rightarrow> Some (Map_set ps i (p\<lparr> role := Some r \<rparr>))))"

text \<open>
  The \<^verbatim>\<open>forEach\<close> over the debuggers: the roles written before a failing lookup stay
  written (\<open>False\<close> marks the throw).
\<close>

fun setDebuggerRoles :: "string list \<Rightarrow> (string \<times> player) list \<Rightarrow> bool \<times> (string \<times> player) list" where
  "setDebuggerRoles [] ps = (True, ps)"
| "setDebuggerRoles (i # is) ps =
     (case setRole ps (Some i) ''debugger'' of
        None \<Rightarrow> (False, ps)
      | Some ps' \<Rightarrow> setDebuggerRoles is ps')"

text \<open>
  \<open>shuffled\<close> is the result of \<^verbatim>\<open>shuffleArray(playerIds)\<close> (from \<^verbatim>\<open>utils\<close>). The result
  pairs the room as written with \<open>True\<close> when the call returned and \<open>False\<close> when it threw.
\<close>

definition assignRoles :: "room \<Rightarrow> string list \<Rightarrow> bool \<times> room" where
  "assignRoles r shuffled =
     (let r1 = r\<lparr> bugger := (case shuffled of [] \<Rightarrow> None | b # _ \<Rightarrow> Some b),
                  debuggers := drop 1 shuffled \<rparr>
      in case setRole (players r1) (bugger r1) ''bugger'' of
           None \<Rightarrow> (False, r1)
         | Some ps \<Rightarrow>
             (case setDebuggerRoles (debuggers r1) ps of
                (ok, ps') \<Rightarrow> (ok, r1\<lparr> players := ps' \<rparr>)))"

text \<open>
  \<open>built\<close> is the object assembled from \<^verbatim>\<open>codeSamples[0]\<close>, the random bug assignment
  and \<^verbatim>\<open>injectBug\<close>; \<open>now\<close> is \<^verbatim>\<open>Date.now()\<close>.
\<close>

definition startRound :: "room \<Rightarrow> currentCode \<Rightarrow> int \<Rightarrow> room" where
  "startRound r built now =
     r\<lparr> currentCode := Some built, roundStartTime := Num now,
        buzzedPlayer := None, activeVote := None \<rparr>"

definition startGame :: "rooms \<Rightarrow> string \<Rightarrow> string list \<Rightarrow> currentCode \<Rightarrow> int \<Rightarrow> room ret \<times> rooms" where
  "startGame rs roomCode shuffled built now =
     (case rs roomCode of
        None \<Rightarrow> (RetNull, rs)
      | Some r \<Rightarrow>
          if length (players r) < 3 then (Error ''Need at least 3 players to start'', rs)
          else
            let r1 = r\<lparr> gameState := playing, currentRound := 1 \<rparr>
            in case assignRoles r1 shuffled of
                 (False, r2) \<Rightarrow> (TypeError, rs(roomCode \<mapsto> r2))
               | (True, r2) \<Rightarrow>
                   let r3 = startRound r2 built now in (Ret r3, rs(roomCode \<mapsto> r3)))"

subsection \<open>Buzz and vote\<close>

text \<open>
  An id that is not a key of \<^verbatim>\<open>players\<close> passes the test \<^verbatim>\<open>player?.disabled\<close>; the call
  then writes \<^verbatim>\<open>buzzedPlayer\<close> and throws on \<^verbatim>\<open>player.name\<close>. \<open>now\<close> is \<^verbatim>\<open>Date.now()\<close>.
\<close>

definition handleBuzz :: "rooms \<Rightarrow> string \<Rightarrow> string \<Rightarrow> int \<Rightarrow> room ret \<times> rooms" where
  "handleBuzz rs roomCode playerId now =
     (case rs roomCode of
        None \<Rightarrow> (RetNull, rs)
      | Some r \<Rightarrow>
          if gameState r \<noteq> playing then (RetNull, rs)
          else
            (case Map_get (players r) playerId of
               None \<Rightarrow> (TypeError, rs(roomCode \<mapsto> r\<lparr> buzzedPlayer := Some playerId \<rparr>))
             | Some p \<Rightarrow>
                 if disabled p then (Error ''You are disabled and cannot buzz'', rs)
                 else
                   let r1 = r\<lparr> buzzedPlayer := Some playerId,
                              activeVote := Some \<lparr> initiatorId = playerId, initiatorName = name p,
                                type_vote = ''vote_kick'', votes = [], skips = [],
                                startTime = now, duration = 60000 \<rparr> \<rparr>
                   in (Ret r1, rs(roomCode \<mapsto> r1))))"

text \<open>
  \<open>allVoted\<close>, computed the same way on both successful paths: votes plus skips against
  the number of players that are not disabled.
\<close>

definition allVoted :: "room \<Rightarrow> buzzVote \<Rightarrow> bool" where
  "allVoted r v =
     (length (votes v) + length (skips v)
        \<ge> length (filter (\<lambda>p. \<not> disabled p) (Map_values (players r))))"

definition castBuzzVote :: "rooms \<Rightarrow> string \<Rightarrow> string \<Rightarrow> string \<Rightarrow> (buzzVote \<times> bool) ret \<times> rooms" where
  "castBuzzVote rs roomCode voterId targetVoteId =
     (case rs roomCode of
        None \<Rightarrow> (Error ''Room not found'', rs)
      | Some r \<Rightarrow>
          (case activeVote r of
             None \<Rightarrow> (Error ''No active vote'', rs)
           | Some v \<Rightarrow>
               if type_vote v \<noteq> ''vote_kick'' then (Error ''No active vote'', rs)
               else if \<not> Map_has (players r) voterId then (Error ''You are not in this room'', rs)
               else if (case Map_get (players r) voterId of None \<Rightarrow> False | Some voter \<Rightarrow> disabled voter)
                 then (Error ''You are disabled and cannot vote'', rs)
               else if Map_has (votes v) voterId \<or> Set_has (skips v) voterId
                 then (Error ''You have already voted'', rs)
               else if targetVoteId = ''skip'' then
                 let v1 = v\<lparr> skips := Set_add (skips v) voterId \<rparr>;
                     r1 = r\<lparr> activeVote := Some v1 \<rparr>
                 in (Ret (v1, allVoted r1 v1), rs(roomCode \<mapsto> r1))
               else if \<not> Map_has (players r) targetVoteId then (Error ''Target player not found'', rs)
               else if (case Map_get (players r) targetVoteId of None \<Rightarrow> False | Some t \<Rightarrow> disabled t)
                 then (Error ''Cannot vote for an already disabled player'', rs)
               else if voterId = targetVoteId then (Error ''You cannot vote for yourself'', rs)
               else
                 let v1 = v\<lparr> votes := Map_set (votes v) voterId targetVoteId \<rparr>;
                     r1 = r\<lparr> activeVote := Some v1 \<rparr>
                 in (Ret (v1, allVoted r1 v1), rs(roomCode \<mapsto> r1))))"

text \<open>
  The first loop of \<^verbatim>\<open>getBuzzVoteResult\<close>: one counter per target, in the order the
  targets first occur; \<^verbatim>\<open>(voteCount.get(t) || 0) + 1\<close>.
\<close>

definition getOr0 :: "(string \<times> nat) list \<Rightarrow> string \<Rightarrow> nat" where
  "getOr0 voteCount t = (case Map_get voteCount t of None \<Rightarrow> 0 | Some c \<Rightarrow> c)"

fun countVotes :: "string list \<Rightarrow> (string \<times> nat) list \<Rightarrow> (string \<times> nat) list" where
  "countVotes [] voteCount = voteCount"
| "countVotes (t # ts) voteCount = countVotes ts (Map_set voteCount t (getOr0 voteCount t + 1))"

text \<open>
  The second loop, on the triple \<^verbatim>\<open>(playerToKick, maxVotes, secondMaxVotes)\<close>.
\<close>

fun tally :: "(string \<times> nat) list \<Rightarrow> string option \<times> nat \<times> nat \<Rightarrow> string option \<times> nat \<times> nat" where
  "tally [] acc = acc"
| "tally ((playerId, count) # rest) (playerToKick, maxVotes, secondMaxVotes) =
     (if count > maxVotes then tally rest (Some playerId, count, maxVotes)
      else if count > secondMaxVotes then tally rest (playerToKick, maxVotes, count)
      else tally rest (playerToKick, maxVotes, secondMaxVotes))"

record voteResult =
  shouldKick :: bool
  playerToKick :: "string option"
  kickedPlayerName :: "string option"
  maxVotes :: nat
  voteCount :: "(string \<times> nat) list"
  votedCount :: nat
  skipCount :: nat
  totalPlayers :: nat
  hasClearMajority :: bool
  buggerVotedOut :: bool

text \<open>The three variables after both loops of \<^verbatim>\<open>getBuzzVoteResult\<close>.\<close>

definition voteTally :: "buzzVote \<Rightarrow> string option \<times> nat \<times> nat" where
  "voteTally v = tally (countVotes (Map_values (votes v)) []) (None, 0, 0)"

definition secondMaxVotes :: "buzzVote \<Rightarrow> nat" where
  "secondMaxVotes v = snd (snd (voteTally v))"

text \<open>
  \<^verbatim>\<open>playerToKick ? room.players.get(playerToKick)?.name : null\<close>: the empty string is
  falsy, a missing player yields \<^verbatim>\<open>undefined\<close>.
\<close>

definition getBuzzVoteResult :: "room \<Rightarrow> voteResult option" where
  "getBuzzVoteResult r =
     (case activeVote r of
        None \<Rightarrow> None
      | Some v \<Rightarrow>
          (case voteTally v of
             (kick, mx, snd_mx) \<Rightarrow>
               let clear = (mx > 0 \<and> mx > snd_mx)
               in Some \<lparr> shouldKick = clear,
                         playerToKick = kick,
                         kickedPlayerName =
                           (case kick of None \<Rightarrow> None
                            | Some k \<Rightarrow> if k = [] then None
                                        else map_option name (Map_get (players r) k)),
                         maxVotes = mx,
                         voteCount = countVotes (Map_values (votes v)) [],
                         votedCount = length (votes v),
                         skipCount = length (skips v),
                         totalPlayers = length (filter (\<lambda>p. \<not> disabled p) (Map_values (players r))),
                         hasClearMajority = clear,
                         buggerVotedOut = (clear \<and> kick = bugger r) \<rparr>))"

definition clearBuzzVote :: "rooms \<Rightarrow> string \<Rightarrow> room option \<times> rooms" where
  "clearBuzzVote rs roomCode =
     (case rs roomCode of
        None \<Rightarrow> (None, rs)
      | Some r \<Rightarrow> let r1 = r\<lparr> activeVote := None \<rparr> in (Some r1, rs(roomCode \<mapsto> r1)))"

text \<open>
  \<^verbatim>\<open>validateFix\<close> writes nothing; it yields \<^verbatim>\<open>isCorrect\<close>. Reading \<^verbatim>\<open>correctCode\<close> of a
  \<^verbatim>\<open>null\<close> \<^verbatim>\<open>currentCode\<close> throws.
\<close>

definition validateFix :: "rooms \<Rightarrow> string \<Rightarrow> string \<Rightarrow> string \<Rightarrow> bool ret" where
  "validateFix rs roomCode playerId fixedCode =
     (case rs roomCode of
        None \<Rightarrow> RetNull
      | Some r \<Rightarrow>
          if buzzedPlayer r \<noteq> Some playerId then Error ''Only the buzzed player can submit a fix''
          else if activeVote r \<noteq> None then Error ''Wait for vote to complete''
          else (case currentCode r of
                  None \<Rightarrow> TypeError
                | Some c \<Rightarrow> Ret (trim fixedCode = trim (correctCode c))))"

subsection \<open>Win conditions\<close>

definition buggerEnabled :: "room \<Rightarrow> bool" where
  "buggerEnabled r =
     (case bugger r of
        None \<Rightarrow> False
      | Some b \<Rightarrow> Map_has (players r) b
                  \<and> \<not> (case Map_get (players r) b of None \<Rightarrow> False | Some p \<Rightarrow> disabled p))"

definition enabledDebuggers :: "room \<Rightarrow> string list" where
  "enabledDebuggers r =
     filter (\<lambda>i. Map_has (players r) i
                 \<and> \<not> (case Map_get (players r) i of None \<Rightarrow> False | Some p \<Rightarrow> disabled p))
            (debuggers r)"

definition enabledPlayers :: "room \<Rightarrow> player list" where
  "enabledPlayers r = filter (\<lambda>p. \<not> disabled p) (Map_values (players r))"

definition checkBuggerWin :: "room \<Rightarrow> bool" where
  "checkBuggerWin r =
     (if length (enabledDebuggers r) = 0 \<and> buggerEnabled r then True
      else if length (enabledPlayers r) = 2 \<and> buggerEnabled r then True
      else False)"

definition checkDebuggersWin :: "room \<Rightarrow> bool" where
  "checkDebuggersWin r =
     (case bugger r of
        None \<Rightarrow> True
      | Some b \<Rightarrow> \<not> Map_has (players r) b
                  \<or> (case Map_get (players r) b of None \<Rightarrow> False | Some p \<Rightarrow> disabled p))"

subsection \<open>End of round\<close>

text \<open>
  The two patterns of \<^verbatim>\<open>endRound\<close>, \<^verbatim>\<open>/divide\([^)]*\)\s*{[^}]*return/s\<close> and the same
  for \<^verbatim>\<open>squareRoot\<close>, are built from two pieces: a literal, and a greedy starred
  character class that gives characters back when the rest of the pattern fails. Each
  piece takes the matcher of the rest of the pattern and yields the matched text.
\<close>

fun lit :: "string \<Rightarrow> (string \<Rightarrow> string option) \<Rightarrow> string \<Rightarrow> string option" where
  "lit l k s = (if take (length l) s = l then map_option (\<lambda>m. l @ m) (k (drop (length l) s)) else None)"

fun star :: "(char \<Rightarrow> bool) \<Rightarrow> (string \<Rightarrow> string option) \<Rightarrow> string \<Rightarrow> string option" where
  "star P k [] = k []"
| "star P k (c # cs) =
     (if P c then (case star P k cs of Some m \<Rightarrow> Some (c # m) | None \<Rightarrow> k (c # cs))
      else k (c # cs))"

definition methodPattern :: "string \<Rightarrow> string \<Rightarrow> string option" where
  "methodPattern method =
     lit (method @ ''('') (star (\<lambda>c. c \<noteq> CHR '')'') (lit '')'' (star isSpace
       (lit ''{'' (star (\<lambda>c. c \<noteq> CHR ''}'') (lit ''return'' (\<lambda>rest. Some [])))))))"

text \<open>\<^verbatim>\<open>s.match(re)\<close> without the \<^verbatim>\<open>g\<close> flag: the leftmost match, \<^verbatim>\<open>match[0]\<close>.\<close>

fun match :: "(string \<Rightarrow> string option) \<Rightarrow> string \<Rightarrow> string option" where
  "match re [] = re []"
| "match re (c # cs) = (case re (c # cs) of Some m \<Rightarrow> Some m | None \<Rightarrow> match re cs)"

text \<open>
  The body of \<^verbatim>\<open>if (finalCode && room.currentCode)\<close>: the flag \<^verbatim>\<open>codeHasErrors\<close> and
  the list \<^verbatim>\<open>errorDetails\<close>. \<open>newFunction\<close> stands for \<^verbatim>\<open>new Function(finalCode)\<close>: the
  message of the \<^verbatim>\<open>SyntaxError\<close> it throws, \<open>None\<close> when it accepts the text.
\<close>

definition checkFinalCode :: "(string \<Rightarrow> string option) \<Rightarrow> string \<Rightarrow> bool \<times> string list" where
  "checkFinalCode newFunction finalCode =
     (let (e1, d1) =
            (case match (methodPattern ''divide'') finalCode of
               None \<Rightarrow> (False, [])
             | Some divideMatch \<Rightarrow>
                 if \<not> includes_str divideMatch ''=== 0''
                 then (True, [''Divide bug: missing zero check'']) else (False, []));
          (e2, d2) =
            (case match (methodPattern ''squareRoot'') finalCode of
               None \<Rightarrow> (e1, d1)
             | Some sqrtMatch \<Rightarrow>
                 if \<not> includes_str sqrtMatch ''< 0''
                 then (True, d1 @ [''SquareRoot bug: missing negative check'']) else (e1, d1))
      in (case newFunction finalCode of
            None \<Rightarrow> (e2, d2)
          | Some message \<Rightarrow> (True, d2 @ [''Syntax error: '' @ message])))"

text \<open>
  \<open>finalCode\<close> is \<open>None\<close> for \<^verbatim>\<open>null\<close> (the default) and \<^verbatim>\<open>undefined\<close>; the empty string
  is falsy too. The last three arguments feed \<^verbatim>\<open>assignRoles\<close> and \<^verbatim>\<open>startRound\<close> on the
  branch that starts the next round.
\<close>

definition endRound ::
  "rooms \<Rightarrow> string \<Rightarrow> string option \<Rightarrow> (string \<Rightarrow> string option) \<Rightarrow> string list \<Rightarrow> currentCode \<Rightarrow> int
     \<Rightarrow> room ret \<times> rooms" where
  "endRound rs roomCode finalCode newFunction shuffled built now =
     (case rs roomCode of
        None \<Rightarrow> (RetNull, rs)
      | Some r \<Rightarrow>
          if currentRound r \<ge> totalRounds r then
            let r1 = r\<lparr> gameState := results \<rparr>;
                (codeHasErrors, errorDetails) =
                  (case finalCode of
                     None \<Rightarrow> (False, [])
                   | Some fc \<Rightarrow> if fc \<noteq> [] \<and> currentCode r1 \<noteq> None
                                then checkFinalCode newFunction fc else (False, []));
                r2 = (if codeHasErrors then
                        r1\<lparr> winner := Some ''bugger'',
                            winReason := Some (''Sabotager wins! '' @
                              (if length errorDetails > 0 then join errorDetails '', ''
                               else ''Bugs still in code'')) \<rparr>
                      else
                        r1\<lparr> winner := Some ''debuggers'',
                            winReason := Some ''Fixers win! All bugs resolved!'' \<rparr>)
            in (Ret r2, rs(roomCode \<mapsto> r2))
          else
            let r1 = r\<lparr> currentRound := currentRound r + 1 \<rparr>
            in case assignRoles r1 shuffled of
                 (False, r2) \<Rightarrow> (TypeError, rs(roomCode \<mapsto> r2))
               | (True, r2) \<Rightarrow>
                   let r3 = startRound r2 built now in (Ret r3, rs(roomCode \<mapsto> r3)))"

definition resetGame :: "rooms \<Rightarrow> string \<Rightarrow> room option \<times> rooms" where
  "resetGame rs roomCode =
     (case rs roomCode of
        None \<Rightarrow> (None, rs)
      | Some r \<Rightarrow>
          let r1 = r\<lparr> gameState := lobby, currentRound := 0, roundStartTime := Null,
                     currentCode := None, bugger := None, debuggers := [],
                     buzzedPlayer := None, activeVote := None, winner := None, winReason := None,
                     players := map (\<lambda>(k, p). (k, p\<lparr> isReady := False, role := None, disabled := False \<rparr>))
                                    (players r) \<rparr>
          in (Some r1, rs(roomCode \<mapsto> r1)))"

definition cleanupOldRooms :: "rooms \<Rightarrow> int \<Rightarrow> rooms" where
  "cleanupOldRooms rs now =
     (\<lambda>c. case rs c of
             None \<Rightarrow> None
           | Some r \<Rightarrow> if now - createdAt r > 2 * 60 * 60 * 1000 then None else Some r)"

section \<open>The round timer and the handlers of \<^verbatim>\<open>socketHandlers.js\<close>\<close>

text \<open>
  Handlers are functions on the registry. What they emit and acknowledge is not state
  and is left out; \<open>now\<close> is the value of \<^verbatim>\<open>Date.now()\<close> during the call. The pair
  \<^verbatim>\<open>{ playerId, roomCode }\<close> a handler reads from \<^verbatim>\<open>socketToPlayer\<close> is its argument.
\<close>

text \<open>\<^verbatim>\<open>room.roundDuration - Math.floor((Date.now() - room.roundStartTime) / 1000)\<close>.\<close>

definition remaining :: "room \<Rightarrow> int \<Rightarrow> jsnum" where
  "remaining r now =
     js_sub (Num (roundDuration r)) (js_floor_div1000 (js_sub (Num now) (roundStartTime r)))"

definition pauseRoundTimer :: "rooms \<Rightarrow> string \<Rightarrow> int \<Rightarrow> rooms" where
  "pauseRoundTimer rs roomCode now =
     (case rs roomCode of
        None \<Rightarrow> rs
      | Some r \<Rightarrow>
          if timerPaused r then rs
          else rs(roomCode \<mapsto> r\<lparr> timerPaused := True,
                                  pausedTimeRemaining := js_max0 (remaining r now) \<rparr>))"

definition resumeRoundTimer :: "rooms \<Rightarrow> string \<Rightarrow> int \<Rightarrow> rooms" where
  "resumeRoundTimer rs roomCode now =
     (case rs roomCode of
        None \<Rightarrow> rs
      | Some r \<Rightarrow>
          if \<not> timerPaused r then rs
          else rs(roomCode \<mapsto> r\<lparr> roundStartTime :=
                                    js_sub (Num now)
                                      (js_mul (js_sub (Num (roundDuration r)) (pausedTimeRemaining r))
                                              (Num 1000)),
                                  timerPaused := False,
                                  pausedTimeRemaining := Undefined \<rparr>))"

definition handleEndRound ::
  "rooms \<Rightarrow> string \<Rightarrow> string option \<Rightarrow> (string \<Rightarrow> string option) \<Rightarrow> string list \<Rightarrow> currentCode \<Rightarrow> int
     \<Rightarrow> rooms" where
  "handleEndRound rs roomCode finalCode newFunction shuffled built now =
     snd (endRound rs roomCode finalCode newFunction shuffled built now)"

text \<open>\<^verbatim>\<open>player.disabled = true\<close> for the player to kick, when there is one.\<close>

definition disablePlayer :: "room \<Rightarrow> string option \<Rightarrow> room" where
  "disablePlayer r k =
     (case k of
        None \<Rightarrow> r
      | Some i \<Rightarrow> (case Map_get (players r) i of
                     None \<Rightarrow> r
                   | Some p \<Rightarrow> r\<lparr> players := Map_set (players r) i (p\<lparr> disabled := True \<rparr>) \<rparr>))"

definition handleBuzzVoteEnd :: "rooms \<Rightarrow> string \<Rightarrow> int \<Rightarrow> rooms" where
  "handleBuzzVoteEnd rs roomCode now =
     (case rs roomCode of
        None \<Rightarrow> rs
      | Some r \<Rightarrow>
          (case getBuzzVoteResult r of
             None \<Rightarrow> rs
           | Some voteResult \<Rightarrow>
               if \<not> hasClearMajority voteResult then
                 resumeRoundTimer
                   (snd (clearBuzzVote (rs(roomCode \<mapsto> r\<lparr> buzzedPlayer := None \<rparr>)) roomCode))
                   roomCode now
               else
                 let r1 = disablePlayer r (playerToKick voteResult)
                 in if buggerVotedOut voteResult then
                      snd (clearBuzzVote (rs(roomCode \<mapsto> r1\<lparr> gameState := results \<rparr>)) roomCode)
                    else if checkBuggerWin r1 then
                      snd (clearBuzzVote (rs(roomCode \<mapsto> r1\<lparr> gameState := results \<rparr>)) roomCode)
                    else
                      resumeRoundTimer
                        (snd (clearBuzzVote (rs(roomCode \<mapsto> r1\<lparr> buzzedPlayer := None \<rparr>)) roomCode))
                        roomCode now))"

subsection \<open>Socket events\<close>

definition on_createRoom :: "rooms \<Rightarrow> string \<Rightarrow> string \<Rightarrow> string \<Rightarrow> int \<Rightarrow> rooms" where
  "on_createRoom rs roomCode playerId playerName now =
     snd (createRoom rs roomCode playerId playerName now)"

definition on_joinRoom :: "rooms \<Rightarrow> string \<Rightarrow> string \<Rightarrow> string \<Rightarrow> rooms" where
  "on_joinRoom rs roomCode playerId playerName =
     (case getRoom rs roomCode of
        None \<Rightarrow> rs
      | Some r \<Rightarrow> snd (addPlayerToRoom rs roomCode playerId playerName))"

definition on_playerReady :: "rooms \<Rightarrow> string \<Rightarrow> string \<Rightarrow> rooms" where
  "on_playerReady rs playerId roomCode =
     (case getRoom rs roomCode of
        None \<Rightarrow> rs
      | Some r \<Rightarrow>
          (case Map_get (players r) playerId of
             None \<Rightarrow> rs
           | Some p \<Rightarrow>
               rs(roomCode \<mapsto> r\<lparr> players := Map_set (players r) playerId (p\<lparr> isReady := \<not> isReady p \<rparr>) \<rparr>)))"

definition on_startGame :: "rooms \<Rightarrow> string \<Rightarrow> string \<Rightarrow> string list \<Rightarrow> currentCode \<Rightarrow> int \<Rightarrow> rooms" where
  "on_startGame rs playerId roomCode shuffled built now =
     (case getRoom rs roomCode of
        None \<Rightarrow> rs
      | Some r \<Rightarrow>
          if hostId r \<noteq> Some playerId then rs
          else snd (startGame rs roomCode shuffled built now))"

definition on_buzz :: "rooms \<Rightarrow> string \<Rightarrow> string \<Rightarrow> int \<Rightarrow> rooms" where
  "on_buzz rs playerId roomCode now =
     (case handleBuzz rs roomCode playerId now of
        (Ret result, rs1) \<Rightarrow> pauseRoundTimer rs1 roomCode now
      | (other, rs1) \<Rightarrow> rs1)"

definition on_castBuzzVote :: "rooms \<Rightarrow> string \<Rightarrow> string \<Rightarrow> string \<Rightarrow> int \<Rightarrow> rooms" where
  "on_castBuzzVote rs playerId roomCode targetPlayerId now =
     (case castBuzzVote rs roomCode playerId targetPlayerId of
        (Ret (vote, all_voted), rs1) \<Rightarrow>
          if all_voted then handleBuzzVoteEnd rs1 roomCode now else rs1
      | (other, rs1) \<Rightarrow> rs1)"

text \<open>
  After a successful \<^verbatim>\<open>validateFix\<close> the handler reads the submitter's name (a
  \<^verbatim>\<open>TypeError\<close> when the player is gone) and then clears \<^verbatim>\<open>buzzedPlayer\<close>; the round end
  it schedules is the event \<open>EndRoundDue\<close> below.
\<close>

definition on_submitFix :: "rooms \<Rightarrow> string \<Rightarrow> string \<Rightarrow> string \<Rightarrow> rooms" where
  "on_submitFix rs playerId roomCode fixedCode =
     (case validateFix rs roomCode playerId fixedCode of
        Ret isCorrect \<Rightarrow>
          (case rs roomCode of
             None \<Rightarrow> rs
           | Some r \<Rightarrow>
               (case Map_get (players r) playerId of
                  None \<Rightarrow> rs
                | Some p \<Rightarrow> rs(roomCode \<mapsto> r\<lparr> buzzedPlayer := None \<rparr>)))
      | other \<Rightarrow> rs)"

definition on_submitBug :: "rooms \<Rightarrow> string \<Rightarrow> string \<Rightarrow> string \<Rightarrow> rooms" where
  "on_submitBug rs playerId roomCode bugged =
     (case getRoom rs roomCode of
        None \<Rightarrow> rs
      | Some r \<Rightarrow>
          if bugger r \<noteq> Some playerId then rs
          else (case currentCode r of
                  None \<Rightarrow> rs
                | Some c \<Rightarrow> rs(roomCode \<mapsto> r\<lparr> currentCode := Some (c\<lparr> buggedCode := Some bugged \<rparr>) \<rparr>)))"

definition on_playAgain :: "rooms \<Rightarrow> string \<Rightarrow> rooms" where
  "on_playAgain rs roomCode = snd (resetGame rs roomCode)"

definition on_leaveRoom :: "rooms \<Rightarrow> string \<Rightarrow> string \<Rightarrow> rooms" where
  "on_leaveRoom rs playerId roomCode =
     (let rs1 = (case getRoom rs roomCode of
                   None \<Rightarrow> rs
                 | Some r \<Rightarrow> if activeVote r \<noteq> None then snd (clearBuzzVote rs roomCode) else rs)
      in snd (removePlayerFromRoom rs1 roomCode playerId))"

definition on_disconnect :: "rooms \<Rightarrow> string \<Rightarrow> string \<Rightarrow> rooms" where
  "on_disconnect rs playerId roomCode =
     (let rs1 = (case getRoom rs roomCode of
                   None \<Rightarrow> rs
                 | Some r \<Rightarrow> if activeVote r \<noteq> None then snd (clearBuzzVote rs roomCode) else rs)
      in snd (removePlayerFromRoom rs1 roomCode playerId))"

subsection \<open>Timer callbacks\<close>

text \<open>The interval set by \<^verbatim>\<open>startRoundTimer\<close>.\<close>

definition roundTick ::
  "rooms \<Rightarrow> string \<Rightarrow> string option \<Rightarrow> (string \<Rightarrow> string option) \<Rightarrow> string list \<Rightarrow> currentCode \<Rightarrow> int
     \<Rightarrow> rooms" where
  "roundTick rs roomCode finalCode newFunction shuffled built now =
     (case getRoom rs roomCode of
        None \<Rightarrow> rs
      | Some r \<Rightarrow>
          if gameState r \<noteq> playing then rs
          else if timerPaused r then rs
          else if js_le0 (remaining r now)
            then handleEndRound rs roomCode finalCode newFunction shuffled built now
          else rs)"

text \<open>The timeout \<^verbatim>\<open>removePlayerFromRoom\<close> sets on an empty room.\<close>

definition emptyTimeout :: "rooms \<Rightarrow> string \<Rightarrow> rooms" where
  "emptyTimeout rs roomCode =
     (case rs roomCode of
        None \<Rightarrow> rs
      | Some r \<Rightarrow> if length (players r) = 0 then rs(roomCode := None) else rs)"

subsection \<open>Runs of the server\<close>

text \<open>
  One constructor per handler and timer callback that writes to a room. Node runs each
  of them to completion before the next, so a run is a sequence of events. The
  arguments of an event are not constrained, and a timer callback may occur at any
  point of a run: the runs of the server are among these runs.
\<close>

datatype event =
    CreateRoom string string string int
  | JoinRoom string string string
  | PlayerReady string string
  | StartGame string string "string list" currentCode int
  | Buzz string string int
  | CastBuzzVote string string string int
  | SubmitFix string string string
  | SubmitBug string string string
  | PlayAgain string
  | LeaveRoom string string
  | Disconnect string string
  | RoundTick string "string option" "string \<Rightarrow> string option" "string list" currentCode int
  | EndRoundDue string "string option" "string \<Rightarrow> string option" "string list" currentCode int
  | VoteTimeout string int
  | EmptyTimeout string
  | CleanupOldRooms int

fun handle :: "event \<Rightarrow> rooms \<Rightarrow> rooms" where
  "handle (CreateRoom roomCode playerId playerName now) rs = on_createRoom rs roomCode playerId playerName now"
| "handle (JoinRoom roomCode playerId playerName) rs = on_joinRoom rs roomCode playerId playerName"
| "handle (PlayerReady playerId roomCode) rs = on_playerReady rs playerId roomCode"
| "handle (StartGame playerId roomCode shuffled built now) rs = on_startGame rs playerId roomCode shuffled built now"
| "handle (Buzz playerId roomCode now) rs = on_buzz rs playerId roomCode now"
| "handle (CastBuzzVote playerId roomCode target now) rs = on_castBuzzVote rs playerId roomCode target now"
| "handle (SubmitFix playerId roomCode fixedCode) rs = on_submitFix rs playerId roomCode fixedCode"
| "handle (SubmitBug playerId roomCode bugged) rs = on_submitBug rs playerId roomCode bugged"
| "handle (PlayAgain roomCode) rs = on_playAgain rs roomCode"
| "handle (LeaveRoom playerId roomCode) rs = on_leaveRoom rs playerId roomCode"
| "handle (Disconnect playerId roomCode) rs = on_disconnect rs playerId roomCode"
| "handle (RoundTick roomCode finalCode newFunction shuffled built now) rs =
     roundTick rs roomCode finalCode newFunction shuffled built now"
| "handle (EndRoundDue roomCode finalCode newFunction shuffled built now) rs =
     handleEndRound rs roomCode finalCode newFunction shuffled built now"
| "handle (VoteTimeout roomCode now) rs = handleBuzzVoteEnd rs roomCode now"
| "handle (EmptyTimeout roomCode) rs = emptyTimeout rs roomCode"
| "handle (CleanupOldRooms now) rs = cleanupOldRooms rs now"

text \<open>The registries a run can reach from the empty one.\<close>

inductive reachable :: "rooms \<Rightarrow> bool" where
  init: "reachable Map.empty"
| step: "reachable rs \<Longrightarrow> reachable (handle e rs)"

section \<open>Scenarios\<close>

text \<open>
  A run used to exercise the theorems below: three players in room \<^verbatim>\<open>ABCD\<close>, the host
  starts the game at time 1000, \<^verbatim>\<open>p2\<close> buzzes 30.5 seconds later, \<^verbatim>\<open>p3\<close> votes for \<^verbatim>\<open>p1\<close>.
  The sample is cut down to its \<^verbatim>\<open>divide\<close> method.
\<close>

definition correctDivide :: string where
  "correctDivide = ''class ScientificCalculator {\<newline>  divide(a, b) {\<newline>    if (b === 0) {\<newline>      throw new Error('Cannot divide by zero');\<newline>    }\<newline>    const result = a / b;\<newline>    this.history.push(`${a} / ${b} = ${result}`);\<newline>    return result;\<newline>  }\<newline>}''"

text \<open>
  The \<^verbatim>\<open>divide\<close> method as \<^verbatim>\<open>injectBug\<close> leaves it for \<^verbatim>\<open>bug1\<close>: the guard is gone, the
  rest of the method is the sample's.
\<close>

definition buggyDivide :: string where
  "buggyDivide = ''class ScientificCalculator {\<newline>  divide(a, b) {\<newline>    const result = a / b;\<newline>    this.history.push(`${a} / ${b} = ${result}`);\<newline>    return result;\<newline>  }\<newline>}''"

definition sampleBuilt :: currentCode where
  "sampleBuilt = \<lparr> correctCode = correctDivide, initialBuggyCode = buggyDivide,
                   bugAssignments = [(''p2'', \<lparr> id_bug = ''bug1'',
                       description = ''Divide method missing zero check before division'',
                       location = ''Line 33'', difficulty = ''medium'' \<rparr>)],
                   buggedCode = None \<rparr>"

definition run_lobby :: rooms where
  "run_lobby = handle (JoinRoom ''ABCD'' ''p3'' ''Cy'')
                (handle (JoinRoom ''ABCD'' ''p2'' ''Bo'')
                  (handle (CreateRoom ''ABCD'' ''p1'' ''Ann'' 0) Map.empty))"

definition run_playing :: rooms where
  "run_playing = handle (StartGame ''p1'' ''ABCD'' [''p1'', ''p2'', ''p3''] sampleBuilt 1000) run_lobby"

definition run_buzzed :: rooms where
  "run_buzzed = handle (Buzz ''p2'' ''ABCD'' 31500) run_playing"

definition run_voted :: rooms where
  "run_voted = handle (CastBuzzVote ''p3'' ''ABCD'' ''p1'' 40000) run_buzzed"

text \<open>The room stored under a code, and its open vote.\<close>

definition room_at :: "rooms \<Rightarrow> string \<Rightarrow> room" where
  "room_at rs roomCode = the (rs roomCode)"

definition vote_of :: "rooms \<Rightarrow> string \<Rightarrow> buzzVote option" where
  "vote_of rs roomCode = Option.bind (rs roomCode) activeVote"

text \<open>
  A tied vote: \<^verbatim>\<open>p1\<close> votes for \<^verbatim>\<open>p2\<close>, \<^verbatim>\<open>p2\<close> for \<^verbatim>\<open>p1\<close>, \<^verbatim>\<open>p3\<close> skips.
\<close>

definition run_tied :: rooms where
  "run_tied = snd (castBuzzVote (snd (castBuzzVote (snd (castBuzzVote run_buzzed
                ''ABCD'' ''p1'' ''p2'')) ''ABCD'' ''p2'' ''p1'')) ''ABCD'' ''p3'' ''skip'')"

text \<open>
  Two votes against \<^verbatim>\<open>p3\<close>, and the room once \<^verbatim>\<open>p3\<close> is disabled: the bugger \<^verbatim>\<open>p1\<close> and
  the debugger \<^verbatim>\<open>p2\<close> remain.
\<close>

definition run_two_votes :: rooms where
  "run_two_votes = handle (CastBuzzVote ''p2'' ''ABCD'' ''p3'' 42000)
                     (handle (CastBuzzVote ''p1'' ''ABCD'' ''p3'' 41000) run_buzzed)"

definition room_two_left :: room where
  "room_two_left = disablePlayer (room_at run_two_votes ''ABCD'') (Some ''p3'')"

text \<open>
  The third ballot, of \<^verbatim>\<open>p3\<close> for \<^verbatim>\<open>p1\<close>, completes the vote: \<^verbatim>\<open>p3\<close> is disabled and the
  game ends.
\<close>

definition run_ended :: rooms where
  "run_ended = handle (CastBuzzVote ''p3'' ''ABCD'' ''p1'' 43000) run_two_votes"

text \<open>
  A split vote left to time out: \<^verbatim>\<open>p1\<close> votes for \<^verbatim>\<open>p2\<close>, \<^verbatim>\<open>p2\<close> for \<^verbatim>\<open>p1\<close>, \<^verbatim>\<open>p3\<close> does
  not vote.
\<close>

definition run_split :: rooms where
  "run_split = handle (CastBuzzVote ''p2'' ''ABCD'' ''p1'' 42000)
                 (handle (CastBuzzVote ''p1'' ''ABCD'' ''p2'' 41000) run_buzzed)"

text \<open>
  A second game in the same room. In the first game \<^verbatim>\<open>p2\<close> buzzes half a second into
  the round, \<^verbatim>\<open>p2\<close> and \<^verbatim>\<open>p3\<close> vote for the bugger \<^verbatim>\<open>p1\<close>, and the vote times out: the
  bugger is voted out and the game ends. The players play again, and the host starts
  the second game at 100000.
\<close>

definition run_voted_out :: rooms where
  "run_voted_out = handle (VoteTimeout ''ABCD'' 61500)
                     (handle (CastBuzzVote ''p3'' ''ABCD'' ''p1'' 3000)
                       (handle (CastBuzzVote ''p2'' ''ABCD'' ''p1'' 2000)
                         (handle (Buzz ''p2'' ''ABCD'' 1500) run_playing)))"

definition run_second_game :: rooms where
  "run_second_game = handle (StartGame ''p1'' ''ABCD'' [''p1'', ''p2'', ''p3''] sampleBuilt 100000)
                       (handle (PlayAgain ''ABCD'') run_voted_out)"

text \<open>
  Eighty seconds into the second game \<^verbatim>\<open>p2\<close> buzzes; nobody votes, and the vote times
  out a minute later.
\<close>

definition run_second_buzz :: rooms where
  "run_second_buzz = handle (Buzz ''p2'' ''ABCD'' 180000) run_second_game"

definition run_second_resumed :: rooms where
  "run_second_resumed = handle (VoteTimeout ''ABCD'' 240000) run_second_buzz"

section \<open>Notions used in the statements\<close>

text \<open>The number of votes cast for a target in a vote.\<close>

definition votesFor :: "buzzVote \<Rightarrow> string \<Rightarrow> nat" where
  "votesFor v t = count_list (Map_values (votes v)) t"

text \<open>
  What the loop over \<^verbatim>\<open>voteCount\<close> maintains for the entries read so far: \<open>mx\<close> bounds
  every counter and is the counter of \<open>kick\<close>; \<open>sd\<close> bounds the counters of all other
  targets and, unless it is 0, is the counter of one of them.
\<close>

definition tally_ok :: "(string \<times> nat) list \<Rightarrow> string option \<times> nat \<times> nat \<Rightarrow> bool" where
  "tally_ok seen acc =
     (case acc of (kick, mx, sd) \<Rightarrow>
        (\<forall>k c. (k, c) \<in> set seen \<longrightarrow> c \<le> mx)
        \<and> (case kick of
              None \<Rightarrow> seen = [] \<and> mx = 0 \<and> sd = 0
            | Some k \<Rightarrow> (k, mx) \<in> set seen
                        \<and> (\<forall>k' c. (k', c) \<in> set seen \<longrightarrow> k' \<noteq> k \<longrightarrow> c \<le> sd)
                        \<and> (sd = 0 \<or> (\<exists>k'. k' \<noteq> k \<and> (k', sd) \<in> set seen))))"

text \<open>
  The room properties the timer relies on. An open vote has the clock paused; and,
  when \<open>with_clock\<close> is set, \<^verbatim>\<open>roundStartTime\<close> is \<^verbatim>\<open>null\<close> or a number and a paused clock
  has its remaining seconds stored.
\<close>

definition room_inv :: "bool \<Rightarrow> room \<Rightarrow> bool" where
  "room_inv with_clock r =
     ((activeVote r \<noteq> None \<longrightarrow> timerPaused r)
      \<and> (with_clock \<longrightarrow>
            toNumber (roundStartTime r) \<noteq> None
            \<and> (timerPaused r \<longrightarrow> (\<exists>p. pausedTimeRemaining r = Num p))))"

definition rooms_inv :: "bool \<Rightarrow> rooms \<Rightarrow> bool" where
  "rooms_inv with_clock rs = (\<forall>c r. rs c = Some r \<longrightarrow> room_inv with_clock r)"

section \<open>Properties\<close>

lemma room_at_upd: "room_at (rs(roomCode \<mapsto> r)) roomCode = r"
  by (simp add: room_at_def)

lemma room_at_Some: "rs roomCode = Some r \<Longrightarrow> room_at rs roomCode = r"
  by (simp add: room_at_def)

subsection \<open>Buzzing while a vote is open\<close>

text \<open>
  \<^verbatim>\<open>handleBuzz\<close> never reads \<^verbatim>\<open>activeVote\<close>: in a playing room it answers a member's buzz
  the same way whether or not a vote is open.
\<close>

lemma handleBuzz_ignores_open_vote:
  assumes "rs roomCode = Some r" and "gameState r = playing"
    and "Map_get (players r) playerId = Some p"
  shows "handleBuzz rs roomCode playerId now =
           (if disabled p then (Error ''You are disabled and cannot buzz'', rs)
            else (Ret (r\<lparr> buzzedPlayer := Some playerId,
                           activeVote := Some \<lparr> initiatorId = playerId, initiatorName = name p,
                             type_vote = ''vote_kick'', votes = [], skips = [],
                             startTime = now, duration = 60000 \<rparr> \<rparr>),
                  rs(roomCode \<mapsto> r\<lparr> buzzedPlayer := Some playerId,
                           activeVote := Some \<lparr> initiatorId = playerId, initiatorName = name p,
                             type_vote = ''vote_kick'', votes = [], skips = [],
                             startTime = now, duration = 60000 \<rparr> \<rparr>)))"
  using assms by (simp add: handleBuzz_def Let_def)

text \<open>
  C1. A buzz while a vote is open is to be rejected and to change nothing. In the
  scenario the vote opened by \<^verbatim>\<open>p2\<close> at 31500 holds the ballot of \<^verbatim>\<open>p3\<close>; then \<^verbatim>\<open>p3\<close>
  buzzes at 45000. \<^verbatim>\<open>handleBuzz\<close> returns the room, not an error, and the open vote is
  replaced by an empty vote of \<^verbatim>\<open>p3\<close> that starts at 45000: the ballot is lost and
  \<^verbatim>\<open>buzzedPlayer\<close> changes. The \<^verbatim>\<open>buzz\<close> handler, which adds no test of its own, leaves
  the registry in the same state.
\<close>

theorem handleBuzz_open_vote_counterexample:
  "map_option votes (vote_of run_voted ''ABCD'') = Some [(''p3'', ''p1'')]
   \<and> map_option initiatorId (vote_of run_voted ''ABCD'') = Some ''p2''
   \<and> map_option startTime (vote_of run_voted ''ABCD'') = Some 31500
   \<and> map_option buzzedPlayer (run_voted ''ABCD'') = Some (Some ''p2'')
   \<and> fst (handleBuzz run_voted ''ABCD'' ''p3'' 45000)
       = Ret (room_at (snd (handleBuzz run_voted ''ABCD'' ''p3'' 45000)) ''ABCD'')
   \<and> map_option votes (vote_of (snd (handleBuzz run_voted ''ABCD'' ''p3'' 45000)) ''ABCD'') = Some []
   \<and> map_option initiatorId (vote_of (snd (handleBuzz run_voted ''ABCD'' ''p3'' 45000)) ''ABCD'')
       = Some ''p3''
   \<and> map_option startTime (vote_of (snd (handleBuzz run_voted ''ABCD'' ''p3'' 45000)) ''ABCD'')
       = Some 45000
   \<and> map_option buzzedPlayer (snd (handleBuzz run_voted ''ABCD'' ''p3'' 45000) ''ABCD'')
       = Some (Some ''p3'')
   \<and> map_option votes (vote_of (handle (Buzz ''p3'' ''ABCD'' 45000) run_voted) ''ABCD'') = Some []
   \<and> map_option initiatorId (vote_of (handle (Buzz ''p3'' ''ABCD'' 45000) run_voted) ''ABCD'')
       = Some ''p3''"
  by code_simp

subsection \<open>Leaving during a vote\<close>

text \<open>
  C2. A player leaves, or disconnects, while the scenario's vote is open: the vote is
  cleared, and the round timer stays paused with its frozen 60 seconds; neither
  handler calls \<^verbatim>\<open>resumeRoundTimer\<close>.
\<close>

theorem leave_keeps_timer_paused:
  "vote_of run_voted ''ABCD'' \<noteq> None
   \<and> map_option timerPaused (run_voted ''ABCD'') = Some True
   \<and> vote_of (on_leaveRoom run_voted ''p3'' ''ABCD'') ''ABCD'' = None
   \<and> map_option timerPaused (on_leaveRoom run_voted ''p3'' ''ABCD'' ''ABCD'') = Some True
   \<and> map_option pausedTimeRemaining (on_leaveRoom run_voted ''p3'' ''ABCD'' ''ABCD'') = Some (Num 60)
   \<and> vote_of (on_disconnect run_voted ''p3'' ''ABCD'') ''ABCD'' = None
   \<and> map_option timerPaused (on_disconnect run_voted ''p3'' ''ABCD'' ''ABCD'') = Some True"
  by code_simp

subsection \<open>Counting a vote\<close>

lemma map_of_Map_set_at: "map_of (Map_set m k v) x = (if x = k then Some v else map_of m x)"
  by (induction m) auto

lemma map_of_Map_set: "map_of (Map_set m k v) = (map_of m)(k \<mapsto> v)"
  by (rule ext) (simp add: map_of_Map_set_at)

lemma keys_Map_set:
  "map fst (Map_set m k v) = (if k \<in> fst ` set m then map fst m else map fst m @ [k])"
proof (induction m)
  case Nil
  then show ?case by simp
next
  case (Cons x m)
  obtain k' v' where x: "x = (k', v')" by (cases x)
  show ?case
  proof (cases "k' = k")
    case True
    then show ?thesis by (simp add: x)
  next
    case False
    then show ?thesis using Cons.IH by (simp add: x)
  qed
qed

lemma set_Map_set: "set (Map_set m k v) \<subseteq> insert (k, v) (set m)"
  by (induction m) (auto split: if_splits)

lemma getOr0_countVotes: "getOr0 (countVotes ts m) t = count_list ts t + getOr0 m t"
  by (induction ts arbitrary: m) (auto simp: getOr0_def Map_get_def map_of_Map_set)

lemma distinct_countVotes: "distinct (map fst m) \<Longrightarrow> distinct (map fst (countVotes ts m))"
  by (induction ts arbitrary: m) (auto simp: keys_Map_set)

lemma positive_countVotes:
  "\<forall>(k, c) \<in> set m. 0 < c \<Longrightarrow> \<forall>(k, c) \<in> set (countVotes ts m). 0 < c"
proof (induction ts arbitrary: m)
  case Nil
  then show ?case by simp
next
  case (Cons t ts)
  have "\<forall>(k, c) \<in> set (Map_set m t (getOr0 m t + 1)). 0 < c"
    using Cons.prems set_Map_set [of m t "getOr0 m t + 1"] by auto
  then show ?case using Cons.IH by simp
qed

lemma countVotes_empty: "countVotes ts m = [] \<longleftrightarrow> ts = [] \<and> m = []"
proof (induction ts arbitrary: m)
  case Nil
  then show ?case by simp
next
  case (Cons t ts)
  have "Map_set m t (getOr0 m t + 1) \<noteq> []" by (cases m) (auto split: if_splits)
  then show ?case using Cons.IH by simp
qed

lemma tally_step:
  assumes "tally_ok seen (kick, mx, sd)" and "k \<notin> fst ` set seen" and "0 < c"
  shows "tally_ok (seen @ [(k, c)])
           (if c > mx then (Some k, c, mx)
            else if c > sd then (kick, mx, c) else (kick, mx, sd))"
proof (cases kick)
  case None
  with assms show ?thesis by (simp add: tally_ok_def)
next
  case (Some k0)
  have A: "\<And>k1 c1. (k1, c1) \<in> set seen \<Longrightarrow> c1 \<le> mx"
    and B: "(k0, mx) \<in> set seen"
    and C: "\<And>k1 c1. (k1, c1) \<in> set seen \<Longrightarrow> k1 \<noteq> k0 \<Longrightarrow> c1 \<le> sd"
    and D: "sd = 0 \<or> (\<exists>k'. k' \<noteq> k0 \<and> (k', sd) \<in> set seen)"
    using assms(1) Some by (simp_all add: tally_ok_def)
  have ne: "k0 \<noteq> k" using B assms(2) by force
  have fresh: "\<And>c1. (k, c1) \<notin> set seen" using assms(2) by force
  consider "c > mx" | "\<not> c > mx" "c > sd" | "\<not> c > mx" "\<not> c > sd" by blast
  then show ?thesis
  proof cases
    case 1
    have "\<forall>k1 c1. (k1, c1) \<in> set (seen @ [(k, c)]) \<longrightarrow> c1 \<le> c"
      using A 1 by fastforce
    moreover have "\<forall>k1 c1. (k1, c1) \<in> set (seen @ [(k, c)]) \<longrightarrow> k1 \<noteq> k \<longrightarrow> c1 \<le> mx"
      using A by auto
    moreover have "\<exists>k'. k' \<noteq> k \<and> (k', mx) \<in> set (seen @ [(k, c)])"
      using B ne by auto
    ultimately have "tally_ok (seen @ [(k, c)]) (Some k, c, mx)"
      unfolding tally_ok_def by simp
    then show ?thesis using 1 by simp
  next
    case 2
    have "\<forall>k1 c1. (k1, c1) \<in> set (seen @ [(k, c)]) \<longrightarrow> c1 \<le> mx"
      using A 2 by fastforce
    moreover have "\<forall>k1 c1. (k1, c1) \<in> set (seen @ [(k, c)]) \<longrightarrow> k1 \<noteq> k0 \<longrightarrow> c1 \<le> c"
      using C 2 by fastforce
    moreover have "\<exists>k'. k' \<noteq> k0 \<and> (k', c) \<in> set (seen @ [(k, c)])"
      using ne by auto
    moreover have "(k0, mx) \<in> set (seen @ [(k, c)])" using B by simp
    ultimately have "tally_ok (seen @ [(k, c)]) (Some k0, mx, c)"
      unfolding tally_ok_def by simp
    then show ?thesis using 2 Some by simp
  next
    case 3
    have "\<forall>k1 c1. (k1, c1) \<in> set (seen @ [(k, c)]) \<longrightarrow> c1 \<le> mx"
      using A 3 by fastforce
    moreover have "\<forall>k1 c1. (k1, c1) \<in> set (seen @ [(k, c)]) \<longrightarrow> k1 \<noteq> k0 \<longrightarrow> c1 \<le> sd"
      using C 3 by fastforce
    moreover have "sd = 0 \<or> (\<exists>k'. k' \<noteq> k0 \<and> (k', sd) \<in> set (seen @ [(k, c)]))"
      using D by auto
    moreover have "(k0, mx) \<in> set (seen @ [(k, c)])" using B by simp
    ultimately have "tally_ok (seen @ [(k, c)]) (Some k0, mx, sd)"
      unfolding tally_ok_def by simp
    then show ?thesis using 3 Some by simp
  qed
qed

lemma tally_ok_tally:
  assumes "tally_ok seen acc" and "distinct (map fst (seen @ xs))"
    and "\<forall>(k, c) \<in> set xs. 0 < c"
  shows "tally_ok (seen @ xs) (tally xs acc)"
  using assms
proof (induction xs arbitrary: seen acc)
  case Nil
  then show ?case by simp
next
  case (Cons x xs)
  obtain k c where x: "x = (k, c)" by (cases x)
  obtain kick mx sd where acc: "acc = (kick, mx, sd)" by (cases acc)
  have fresh: "k \<notin> fst ` set seen" and pos: "0 < c"
    using Cons.prems x by auto
  have ok: "tally_ok (seen @ [(k, c)])
              (if c > mx then (Some k, c, mx)
               else if c > sd then (kick, mx, c) else (kick, mx, sd))"
    using tally_step [OF _ fresh pos] Cons.prems(1) acc by simp
  have "tally_ok ((seen @ [(k, c)]) @ xs)
          (tally xs (if c > mx then (Some k, c, mx)
                     else if c > sd then (kick, mx, c) else (kick, mx, sd)))"
    using Cons.prems x by (intro Cons.IH [OF ok]) auto
  then show ?case by (cases "c > mx"; cases "c > sd"; simp add: x acc)
qed


lemma other_string: "\<exists>t'::string. t' \<noteq> t"
proof
  show "CHR ''a'' # t \<noteq> t" by simp
qed

lemma voteTally_ok:
  "tally_ok (countVotes (Map_values (votes v)) []) (voteTally v)"
proof -
  let ?vc = "countVotes (Map_values (votes v)) []"
  have "tally_ok ([] @ ?vc) (tally ?vc (None, 0, 0))"
    using distinct_countVotes [of "[]" "Map_values (votes v)"]
          positive_countVotes [of "[]" "Map_values (votes v)"]
    by (intro tally_ok_tally) (simp_all add: tally_ok_def)
  then show ?thesis by (simp add: voteTally_def)
qed

lemma in_voteCount:
  "(k, c) \<in> set (countVotes (Map_values (votes v)) []) \<longleftrightarrow> c = votesFor v k \<and> 0 < c"
proof -
  let ?vc = "countVotes (Map_values (votes v)) []"
  have d: "distinct (map fst ?vc)" using distinct_countVotes [of "[]"] by simp
  have g: "getOr0 ?vc k = votesFor v k"
    using getOr0_countVotes [of "Map_values (votes v)" "[]" k]
    by (simp add: votesFor_def getOr0_def Map_get_def)
  have p: "\<forall>(k, c) \<in> set ?vc. 0 < c" using positive_countVotes [of "[]"] by simp
  show ?thesis
  proof
    assume m: "(k, c) \<in> set ?vc"
    then have "map_of ?vc k = Some c" using d by simp
    then have "c = votesFor v k" using g by (simp add: getOr0_def Map_get_def)
    then show "c = votesFor v k \<and> 0 < c" using p m by auto
  next
    assume a: "c = votesFor v k \<and> 0 < c"
    then have "map_of ?vc k \<noteq> None" using g
      by (cases "map_of ?vc k") (auto simp: getOr0_def Map_get_def)
    then obtain c' where c': "map_of ?vc k = Some c'" by auto
    then have "c' = c" using g a by (simp add: getOr0_def Map_get_def)
    then show "(k, c) \<in> set ?vc" using c' by (auto dest: map_of_SomeD)
  qed
qed


lemma voteTally_facts:
  assumes "voteTally v = (kick, mx, sd)"
  shows "(\<forall>t. votesFor v t \<le> mx)"
    and "votes v \<noteq> [] \<Longrightarrow> \<exists>t. kick = Some t \<and> votesFor v t = mx \<and> 0 < mx"
    and "votes v = [] \<Longrightarrow> kick = None \<and> mx = 0 \<and> sd = 0"
    and "(0 < mx \<and> sd < mx) \<longleftrightarrow> (\<exists>t. \<forall>t'. t' \<noteq> t \<longrightarrow> votesFor v t' < votesFor v t)"
proof -
  let ?vc = "countVotes (Map_values (votes v)) []"
  have ok: "tally_ok ?vc (kick, mx, sd)" using voteTally_ok [of v] assms by simp
  have bound: "votesFor v t \<le> mx" for t
  proof (cases "votesFor v t = 0")
    case True
    then show ?thesis by simp
  next
    case False
    then have "(t, votesFor v t) \<in> set ?vc" by (simp add: in_voteCount)
    then show ?thesis using ok by (auto simp: tally_ok_def)
  qed
  show "\<forall>t. votesFor v t \<le> mx" using bound by simp
  have empty: "?vc = [] \<longleftrightarrow> votes v = []"
    by (simp add: countVotes_empty Map_values_def)
  show e: "votes v = [] \<Longrightarrow> kick = None \<and> mx = 0 \<and> sd = 0"
    using assms by (simp add: voteTally_def Map_values_def)
  show ne: "votes v \<noteq> [] \<Longrightarrow> \<exists>t. kick = Some t \<and> votesFor v t = mx \<and> 0 < mx"
    using ok empty by (cases kick) (auto simp: tally_ok_def in_voteCount)
  show "(0 < mx \<and> sd < mx) \<longleftrightarrow> (\<exists>t. \<forall>t'. t' \<noteq> t \<longrightarrow> votesFor v t' < votesFor v t)"
  proof
    assume a: "0 < mx \<and> sd < mx"
    then have "votes v \<noteq> []" using e by auto
    then obtain k where k: "kick = Some k" "votesFor v k = mx" using ne by auto
    have "votesFor v t' < votesFor v k" if "t' \<noteq> k" for t'
    proof (cases "votesFor v t' = 0")
      case True
      then show ?thesis using a k by simp
    next
      case False
      then have "(t', votesFor v t') \<in> set ?vc" by (simp add: in_voteCount)
      then have "votesFor v t' \<le> sd" using ok k that by (auto simp: tally_ok_def)
      then show ?thesis using a k by simp
    qed
    then show "\<exists>t. \<forall>t'. t' \<noteq> t \<longrightarrow> votesFor v t' < votesFor v t" by blast
  next
    assume "\<exists>t. \<forall>t'. t' \<noteq> t \<longrightarrow> votesFor v t' < votesFor v t"
    then obtain t where t: "\<And>t'. t' \<noteq> t \<Longrightarrow> votesFor v t' < votesFor v t" by blast
    obtain u where "u \<noteq> t" using other_string by blast
    then have pos: "0 < votesFor v t" using t [of u] by simp
    have "votes v \<noteq> []"
    proof
      assume "votes v = []"
      then have "votesFor v t = 0" by (simp add: votesFor_def Map_values_def)
      then show False using pos by simp
    qed
    then obtain k where k: "kick = Some k" "votesFor v k = mx" "0 < mx" using ne by auto
    have tk: "t = k"
    proof (rule ccontr)
      assume "t \<noteq> k"
      then have "votesFor v k < votesFor v t" using t [of k] by simp
      then show False using bound [of t] k by simp
    qed
    have "sd < mx"
    proof (cases "sd = 0")
      case True
      then show ?thesis using k by simp
    next
      case False
      then obtain k' where "k' \<noteq> k" "(k', sd) \<in> set ?vc"
        using ok k by (auto simp: tally_ok_def)
      then show ?thesis using t [of k'] tk k by (simp add: in_voteCount)
    qed
    then show "0 < mx \<and> sd < mx" using k by simp
  qed
qed

text \<open>
  C3. For a room with an open vote, \<^verbatim>\<open>getBuzzVoteResult\<close> returns a result whose
  \<^verbatim>\<open>maxVotes\<close> is the highest number of votes any target received (0 when no target
  vote was cast), and whose \<^verbatim>\<open>hasClearMajority\<close> is \<^verbatim>\<open>maxVotes > 0 && maxVotes >
  secondMaxVotes\<close>. The flag holds exactly when one target has strictly more votes than
  every other target; it is false when no target vote was cast and when two targets
  share the highest count.
\<close>

theorem getBuzzVoteResult_majority:
  assumes "activeVote r = Some v"
  shows "\<exists>res. getBuzzVoteResult r = Some res
           \<and> (\<forall>t. votesFor v t \<le> maxVotes res)
           \<and> (votes v \<noteq> [] \<longrightarrow> (\<exists>t. votesFor v t = maxVotes res))
           \<and> (votes v = [] \<longrightarrow> maxVotes res = 0)
           \<and> hasClearMajority res = (maxVotes res > 0 \<and> maxVotes res > secondMaxVotes v)
           \<and> (hasClearMajority res \<longleftrightarrow> (\<exists>t. \<forall>t'. t' \<noteq> t \<longrightarrow> votesFor v t' < votesFor v t))
           \<and> (votes v = [] \<longrightarrow> \<not> hasClearMajority res)
           \<and> (\<forall>t t'. t \<noteq> t' \<and> votesFor v t = maxVotes res \<and> votesFor v t' = maxVotes res
                  \<longrightarrow> \<not> hasClearMajority res)"
proof -
  obtain kick mx sd where tl: "voteTally v = (kick, mx, sd)"
    by (cases "voteTally v") auto
  note f = voteTally_facts [OF tl]
  obtain res where res: "getBuzzVoteResult r = Some res"
    and m: "maxVotes res = mx" and h: "hasClearMajority res = (mx > 0 \<and> mx > sd)"
    using assms tl by (simp add: getBuzzVoteResult_def Let_def)
  have s: "secondMaxVotes v = sd" using tl by (simp add: secondMaxVotes_def)
  have tie: "\<not> (mx > 0 \<and> mx > sd)"
    if "t \<noteq> t'" "votesFor v t = mx" "votesFor v t' = mx" for t t'
  proof
    assume "mx > 0 \<and> mx > sd"
    then obtain u where u: "\<And>t'. t' \<noteq> u \<Longrightarrow> votesFor v t' < votesFor v u"
      using f(4) by blast
    have "votesFor v u \<le> mx" using f(1) by simp
    then show False using u [of t] u [of t'] that by (cases "t = u") auto
  qed
  show ?thesis
    using res m h s f(1) f(2) f(3) f(4) tie by (intro exI [of _ res]) auto
qed

text \<open>
  The tied vote of the scenario: three enabled players, one vote for \<^verbatim>\<open>p2\<close>, one for
  \<^verbatim>\<open>p1\<close>, one skip.
\<close>

theorem getBuzzVoteResult_majority_witness:
  "activeVote (room_at run_tied ''ABCD'') = Some (the (activeVote (room_at run_tied ''ABCD'')))
   \<and> length (enabledPlayers (room_at run_tied ''ABCD'')) = 3
   \<and> votes (the (activeVote (room_at run_tied ''ABCD''))) = [(''p1'', ''p2''), (''p2'', ''p1'')]
   \<and> skips (the (activeVote (room_at run_tied ''ABCD''))) = [''p3'']
   \<and> map_option maxVotes (getBuzzVoteResult (room_at run_tied ''ABCD'')) = Some 1
   \<and> secondMaxVotes (the (activeVote (room_at run_tied ''ABCD''))) = 1
   \<and> map_option hasClearMajority (getBuzzVoteResult (room_at run_tied ''ABCD'')) = Some False"
proof -
  let ?r = "room_at run_tied ''ABCD''"
  let ?v = "the (activeVote ?r)"
  have h: "activeVote ?r = Some ?v" by code_simp
  have c: "length (enabledPlayers ?r) = 3"
    "votes ?v = [(''p1'', ''p2''), (''p2'', ''p1'')]" "skips ?v = [''p3'']"
    "map_option maxVotes (getBuzzVoteResult ?r) = Some 1"
    "secondMaxVotes ?v = 1" by code_simp+
  show ?thesis
    using getBuzzVoteResult_majority [OF h] h c by auto
qed

subsection \<open>Rejected votes\<close>

lemma Map_has_Map_set: "Map_has (Map_set m k v) k"
  by (induction m) (auto simp: Map_has_def)

lemma castBuzzVote_already:
  assumes "rs roomCode = Some r" and "activeVote r = Some v"
    and "Map_has (votes v) voterId \<or> Set_has (skips v) voterId"
  shows "\<exists>msg. castBuzzVote rs roomCode voterId targetVoteId = (Error msg, rs)"
  using assms by (simp add: castBuzzVote_def)

lemma castBuzzVote_Ret:
  assumes "castBuzzVote rs roomCode voterId targetVoteId = (Ret x, rs1)"
  shows "\<exists>r v1. rs roomCode = Some r \<and> rs1 = rs(roomCode \<mapsto> r\<lparr> activeVote := Some v1 \<rparr>)
               \<and> (Map_has (votes v1) voterId \<or> Set_has (skips v1) voterId)"
proof -
  obtain r where r: "rs roomCode = Some r"
    using assms by (cases "rs roomCode") (simp_all add: castBuzzVote_def)
  obtain v where v: "activeVote r = Some v"
    using assms r by (cases "activeVote r") (simp_all add: castBuzzVote_def)
  show ?thesis
  proof (cases "targetVoteId = ''skip''")
    case True
    with assms r v
    have "rs1 = rs(roomCode \<mapsto> r\<lparr> activeVote := Some (v\<lparr> skips := Set_add (skips v) voterId \<rparr>) \<rparr>)"
      by (simp add: castBuzzVote_def Let_def split: if_splits)
    then show ?thesis using r by (auto simp: Set_has_def Set_add_def)
  next
    case False
    with assms r v
    have "rs1 = rs(roomCode \<mapsto> r\<lparr> activeVote := Some (v\<lparr> votes := Map_set (votes v) voterId targetVoteId \<rparr>) \<rparr>)"
      by (simp add: castBuzzVote_def Let_def split: if_splits)
    then show ?thesis using r by (auto simp: Map_has_Map_set)
  qed
qed

lemma castBuzzVote_once:
  assumes "castBuzzVote rs roomCode voterId target1 = (Ret x, rs1)"
  shows "\<exists>msg. castBuzzVote rs1 roomCode voterId target2 = (Error msg, rs1)"
proof -
  from castBuzzVote_Ret [OF assms] obtain r v1 where
    "rs1 = rs(roomCode \<mapsto> r\<lparr> activeVote := Some v1 \<rparr>)"
    "Map_has (votes v1) voterId \<or> Set_has (skips v1) voterId" by blast
  then show ?thesis
    using castBuzzVote_already [of rs1 roomCode "r\<lparr> activeVote := Some v1 \<rparr>" v1 voterId target2]
    by simp
qed

lemma castBuzzVote_guards:
  assumes "rs roomCode = Some r"
    and "activeVote r = None
         \<or> \<not> Map_has (players r) voterId
         \<or> (\<exists>p. Map_get (players r) voterId = Some p \<and> disabled p)
         \<or> (\<exists>v. activeVote r = Some v \<and> (Map_has (votes v) voterId \<or> Set_has (skips v) voterId))
         \<or> (targetVoteId \<noteq> ''skip''
              \<and> (\<not> Map_has (players r) targetVoteId
                   \<or> (\<exists>t. Map_get (players r) targetVoteId = Some t \<and> disabled t)
                   \<or> voterId = targetVoteId))"
  shows "\<exists>msg. castBuzzVote rs roomCode voterId targetVoteId = (Error msg, rs)"
  using assms
  by (auto simp: castBuzzVote_def Let_def split: option.splits)

text \<open>
  C6. \<^verbatim>\<open>castBuzzVote\<close> returns an error and leaves the registry (so the tallies and
  every other field of the room) as it was when no vote is open, when the voter is not
  in the room, is disabled, or already has an entry in \<^verbatim>\<open>votes\<close> or \<^verbatim>\<open>skips\<close>, and, for a
  target other than \<^verbatim>\<open>skip\<close>, when the target is not in the room, is disabled, or is
  the voter. Hence after any accepted vote or skip, every further call by the same
  voter is rejected without a change.
\<close>

theorem castBuzzVote_rejects:
  "(rs roomCode = Some r
     \<and> (activeVote r = None
         \<or> \<not> Map_has (players r) voterId
         \<or> (\<exists>p. Map_get (players r) voterId = Some p \<and> disabled p)
         \<or> (\<exists>v. activeVote r = Some v \<and> (Map_has (votes v) voterId \<or> Set_has (skips v) voterId))
         \<or> (targetVoteId \<noteq> ''skip''
              \<and> (\<not> Map_has (players r) targetVoteId
                   \<or> (\<exists>t. Map_get (players r) targetVoteId = Some t \<and> disabled t)
                   \<or> voterId = targetVoteId)))
     \<longrightarrow> (\<exists>msg. castBuzzVote rs roomCode voterId targetVoteId = (Error msg, rs)))
   \<and> (castBuzzVote rs roomCode voterId firstTarget = (Ret x, rsAfter)
     \<longrightarrow> (\<exists>msg. castBuzzVote rsAfter roomCode voterId laterTarget = (Error msg, rsAfter)))"
  using castBuzzVote_guards [of rs roomCode r voterId targetVoteId]
        castBuzzVote_once [of rs roomCode voterId firstTarget x rsAfter laterTarget]
  by blast

text \<open>
  In the scenario \<^verbatim>\<open>p3\<close> votes for \<^verbatim>\<open>p1\<close>: after that a vote of \<^verbatim>\<open>p3\<close> for \<^verbatim>\<open>p2\<close> and a
  skip of \<^verbatim>\<open>p3\<close> are both rejected, and the registry stays the same.
\<close>

theorem castBuzzVote_rejects_witness:
  "fst (castBuzzVote run_buzzed ''ABCD'' ''p3'' ''p1'')
     = Ret (\<lparr> initiatorId = ''p2'', initiatorName = ''Bo'', type_vote = ''vote_kick'',
              votes = [(''p3'', ''p1'')], skips = [], startTime = 31500, duration = 60000 \<rparr>, False)
   \<and> snd (castBuzzVote (snd (castBuzzVote run_buzzed ''ABCD'' ''p3'' ''p1'')) ''ABCD'' ''p3'' ''skip'')
       = snd (castBuzzVote run_buzzed ''ABCD'' ''p3'' ''p1'')
   \<and> run_voted ''ABCD'' = Some (room_at run_voted ''ABCD'')
   \<and> Map_has (votes (the (activeVote (room_at run_voted ''ABCD'')))) ''p3''
   \<and> fst (castBuzzVote run_voted ''ABCD'' ''p3'' ''p2'') = Error ''You have already voted''
   \<and> snd (castBuzzVote run_voted ''ABCD'' ''p3'' ''p2'') = run_voted"
proof -
  let ?r = "room_at run_voted ''ABCD''"
  let ?v = "the (activeVote ?r)"
  let ?first = "castBuzzVote run_buzzed ''ABCD'' ''p3'' ''p1''"
  let ?x = "(\<lparr> initiatorId = ''p2'', initiatorName = ''Bo'', type_vote = ''vote_kick'',
              votes = [(''p3'', ''p1'')], skips = [], startTime = 31500, duration = 60000 \<rparr>, False)"
  have h1: "run_voted ''ABCD'' = Some ?r" by code_simp
  have h2: "activeVote ?r = Some ?v" by code_simp
  have h3: "Map_has (votes ?v) ''p3''" by code_simp
  have c1: "fst ?first = Ret ?x" by code_simp
  have c2: "fst (castBuzzVote run_voted ''ABCD'' ''p3'' ''p2'') = Error ''You have already voted''"
    by code_simp
  have h4: "?first = (Ret ?x, snd ?first)"
    using c1 by (cases ?first) simp
  have a: "\<exists>msg. castBuzzVote run_voted ''ABCD'' ''p3'' ''p2'' = (Error msg, run_voted)"
    using castBuzzVote_rejects
            [where rs = run_voted and roomCode = "''ABCD''" and r = ?r and voterId = "''p3''"
               and targetVoteId = "''p2''"]
          h1 h2 h3 by blast
  have b: "\<exists>msg. castBuzzVote (snd ?first) ''ABCD'' ''p3'' ''skip'' = (Error msg, snd ?first)"
    using castBuzzVote_rejects
            [where rs = run_buzzed and roomCode = "''ABCD''" and voterId = "''p3''"
               and firstTarget = "''p1''" and laterTarget = "''skip''" and x = ?x and rsAfter = "snd ?first"]
          h4 by blast
  show ?thesis
    using a b h1 h3 c1 c2 by auto
qed

subsection \<open>The bugger's win\<close>

text \<open>
  C7. \<^verbatim>\<open>checkBuggerWin\<close> is true exactly when the bugger is a player of the room who is
  not disabled and, in addition, either every debugger is disabled or gone from the
  room, or exactly two players of the room are not disabled.
\<close>

theorem checkBuggerWin_iff:
  "checkBuggerWin r \<longleftrightarrow>
     (case bugger r of
        None \<Rightarrow> False
      | Some b \<Rightarrow> (case Map_get (players r) b of None \<Rightarrow> False | Some p \<Rightarrow> \<not> disabled p))
     \<and> ((\<forall>d \<in> set (debuggers r). case Map_get (players r) d of None \<Rightarrow> True | Some q \<Rightarrow> disabled q)
          \<or> length (filter (\<lambda>p. \<not> disabled p) (Map_values (players r))) = 2)"
  by (auto simp: checkBuggerWin_def buggerEnabled_def enabledDebuggers_def enabledPlayers_def
        Map_has_def Map_get_def filter_empty_conv split: option.splits)

text \<open>
  After \<^verbatim>\<open>p3\<close> is voted out of the scenario the bugger \<^verbatim>\<open>p1\<close> and the debugger \<^verbatim>\<open>p2\<close> are
  the two enabled players, and the bugger has won.
\<close>

theorem checkBuggerWin_iff_witness:
  "bugger room_two_left = Some ''p1''
   \<and> map id_player (enabledPlayers room_two_left) = [''p1'', ''p2'']
   \<and> enabledDebuggers room_two_left = [''p2'']
   \<and> checkBuggerWin room_two_left"
proof -
  have c: "bugger room_two_left = Some ''p1''"
    "map id_player (enabledPlayers room_two_left) = [''p1'', ''p2'']"
    "enabledDebuggers room_two_left = [''p2'']" by code_simp+
  have b: "(case bugger room_two_left of
              None \<Rightarrow> False
            | Some b \<Rightarrow> (case Map_get (players room_two_left) b of
                           None \<Rightarrow> False | Some p \<Rightarrow> \<not> disabled p))"
    by code_simp
  have two: "length (filter (\<lambda>p. \<not> disabled p) (Map_values (players room_two_left))) = 2"
    by code_simp
  show ?thesis
    using checkBuggerWin_iff [of room_two_left] b two c by simp
qed

subsection \<open>The end of the last round\<close>

text \<open>
  C8. The last round of the scenario ends with the \<^verbatim>\<open>divide\<close> method as the injected
  bug left it, and with text that \<^verbatim>\<open>new Function\<close> accepts. The method has no
  \<^verbatim>\<open>=== 0\<close> guard, yet the pattern of \<^verbatim>\<open>endRound\<close> does not match it (the class
  \<^verbatim>\<open>[^}]*\<close> stops at the first brace of the template literal, before \<^verbatim>\<open>return\<close>), no
  defect is recorded, and the debuggers are declared winners.
\<close>

theorem endRound_misses_injected_bug:
  "\<not> includes_str buggyDivide ''=== 0''
   \<and> map_option currentRound (run_playing ''ABCD'') = Some 1
   \<and> map_option totalRounds (run_playing ''ABCD'') = Some 1
   \<and> match (methodPattern ''divide'') buggyDivide = None
   \<and> checkFinalCode (\<lambda>code. None) buggyDivide = (False, [])
   \<and> map_option gameState
        (snd (endRound run_playing ''ABCD'' (Some buggyDivide) (\<lambda>code. None) [] sampleBuilt 91000) ''ABCD'')
       = Some results
   \<and> map_option winner
        (snd (endRound run_playing ''ABCD'' (Some buggyDivide) (\<lambda>code. None) [] sampleBuilt 91000) ''ABCD'')
       = Some (Some ''debuggers'')
   \<and> map_option winReason
        (snd (endRound run_playing ''ABCD'' (Some buggyDivide) (\<lambda>code. None) [] sampleBuilt 91000) ''ABCD'')
       = Some (Some ''Fixers win! All bugs resolved!'')"
  by code_simp

text \<open>
  C9. On the last round, \<^verbatim>\<open>endRound\<close> without a final code snapshot sets the state to
  \<^verbatim>\<open>results\<close> and declares the debuggers winners, whatever \<^verbatim>\<open>new Function\<close> would say
  and whatever the room holds: no check is consulted.
\<close>

theorem endRound_without_snapshot:
  assumes "rs roomCode = Some r" and "currentRound r \<ge> totalRounds r"
  shows "endRound rs roomCode None newFunction shuffled built now =
           (Ret (r\<lparr> gameState := results, winner := Some ''debuggers'',
                     winReason := Some ''Fixers win! All bugs resolved!'' \<rparr>),
            rs(roomCode \<mapsto> r\<lparr> gameState := results, winner := Some ''debuggers'',
                     winReason := Some ''Fixers win! All bugs resolved!'' \<rparr>))"
  using assms by (simp add: endRound_def Let_def)

theorem endRound_without_snapshot_witness:
  "run_playing ''ABCD'' = Some (room_at run_playing ''ABCD'')
   \<and> currentRound (room_at run_playing ''ABCD'') = 1
   \<and> totalRounds (room_at run_playing ''ABCD'') = 1
   \<and> map_option initialBuggyCode (currentCode (room_at run_playing ''ABCD'')) = Some buggyDivide
   \<and> winner (room_at (snd (endRound run_playing ''ABCD'' None (\<lambda>code. Some ''Unexpected token'')
                               [] sampleBuilt 91000)) ''ABCD'') = Some ''debuggers''
   \<and> winReason (room_at (snd (endRound run_playing ''ABCD'' None (\<lambda>code. Some ''Unexpected token'')
                               [] sampleBuilt 91000)) ''ABCD'') = Some ''Fixers win! All bugs resolved!''
   \<and> gameState (room_at (snd (endRound run_playing ''ABCD'' None (\<lambda>code. Some ''Unexpected token'')
                               [] sampleBuilt 91000)) ''ABCD'') = results"
proof -
  let ?r = "room_at run_playing ''ABCD''"
  have h1: "run_playing ''ABCD'' = Some ?r" by code_simp
  have c: "currentRound ?r = 1" "totalRounds ?r = 1"
    "map_option initialBuggyCode (currentCode ?r) = Some buggyDivide" by code_simp+
  have h2: "currentRound ?r \<ge> totalRounds ?r" using c by simp
  show ?thesis
    using endRound_without_snapshot
            [where rs = run_playing and roomCode = "''ABCD''"
               and newFunction = "\<lambda>code. Some ''Unexpected token''"
               and shuffled = "[]" and built = sampleBuilt and now = 91000, OF h1 h2]
          h1 c
    by (simp add: room_at_upd)
qed

subsection \<open>Playing again\<close>

text \<open>
  C10. \<^verbatim>\<open>resetGame\<close> puts the room back in the lobby at round 0, clears the round's
  fields, the vote and the winner, and makes every player not ready, without a role
  and enabled. The players, in their order, keep their key, id, name and host flag;
  the host id and the remaining fields of the room are unchanged.
\<close>

theorem resetGame_frame:
  assumes "rs roomCode = Some r"
  shows "\<exists>r'. resetGame rs roomCode = (Some r', rs(roomCode \<mapsto> r'))
          \<and> gameState r' = lobby \<and> currentRound r' = 0 \<and> roundStartTime r' = Null
          \<and> currentCode r' = None \<and> bugger r' = None \<and> debuggers r' = []
          \<and> buzzedPlayer r' = None \<and> activeVote r' = None
          \<and> winner r' = None \<and> winReason r' = None
          \<and> Map_keys (players r') = Map_keys (players r)
          \<and> list_all2 (\<lambda>p p'. id_player p' = id_player p \<and> name p' = name p \<and> isHost p' = isHost p
                                \<and> isReady p' = False \<and> role p' = None \<and> disabled p' = False)
               (Map_values (players r)) (Map_values (players r'))
          \<and> hostId r' = hostId r \<and> code r' = code r \<and> totalRounds r' = totalRounds r
          \<and> roundDuration r' = roundDuration r \<and> createdAt r' = createdAt r
          \<and> timerPaused r' = timerPaused r \<and> pausedTimeRemaining r' = pausedTimeRemaining r"
  using assms
  by (simp add: resetGame_def Let_def Map_keys_def Map_values_def list_all2_map1 list_all2_map2
        case_prod_unfold list.rel_refl comp_def)

text \<open>
  Resetting the room in which \<^verbatim>\<open>p3\<close> was voted out and the bugger won.
\<close>

theorem resetGame_frame_witness:
  "run_ended ''ABCD'' = Some (room_at run_ended ''ABCD'')
   \<and> map disabled (Map_values (players (room_at run_ended ''ABCD''))) = [False, False, True]
   \<and> gameState (room_at run_ended ''ABCD'') = results
   \<and> gameState (room_at (snd (resetGame run_ended ''ABCD'')) ''ABCD'') = lobby
   \<and> map disabled (Map_values (players (room_at (snd (resetGame run_ended ''ABCD'')) ''ABCD'')))
       = [False, False, False]
   \<and> hostId (room_at (snd (resetGame run_ended ''ABCD'')) ''ABCD'') = Some ''p1''"
proof -
  let ?r = "room_at run_ended ''ABCD''"
  have h: "run_ended ''ABCD'' = Some ?r" by code_simp
  have c: "map disabled (Map_values (players ?r)) = [False, False, True]"
    "gameState ?r = results" "hostId ?r = Some ''p1''" by code_simp+
  have d: "map disabled (Map_values (players (room_at (snd (resetGame run_ended ''ABCD'')) ''ABCD'')))
             = [False, False, False]" by code_simp
  obtain r' where r': "resetGame run_ended ''ABCD'' = (Some r', run_ended(''ABCD'' \<mapsto> r'))"
    "gameState r' = lobby" "hostId r' = hostId ?r"
    using resetGame_frame [where rs = run_ended and roomCode = "''ABCD''", OF h] by blast
  show ?thesis
    using r' h c d by (simp add: room_at_upd)
qed

subsection \<open>What every event preserves\<close>

lemma rooms_inv_upd: "rooms_inv k rs \<Longrightarrow> room_inv k r \<Longrightarrow> rooms_inv k (rs(c \<mapsto> r))"
  by (simp add: rooms_inv_def)

lemma rooms_inv_at: "rooms_inv k rs \<Longrightarrow> rs c = Some r \<Longrightarrow> room_inv k r"
  by (simp add: rooms_inv_def)

lemma rooms_inv_del: "rooms_inv k rs \<Longrightarrow> rooms_inv k (rs(c := None))"
  by (simp add: rooms_inv_def)

lemma room_inv_cong:
  "activeVote r' = activeVote r \<Longrightarrow> timerPaused r' = timerPaused r
   \<Longrightarrow> roundStartTime r' = roundStartTime r \<Longrightarrow> pausedTimeRemaining r' = pausedTimeRemaining r
   \<Longrightarrow> room_inv k r' = room_inv k r"
  by (simp add: room_inv_def)

lemma room_inv_assignRoles: "room_inv k (snd (assignRoles r sh)) = room_inv k r"
  by (rule room_inv_cong)
    (simp_all add: assignRoles_def Let_def split: option.splits prod.splits)

lemma room_inv_startRound: "room_inv k r \<Longrightarrow> room_inv k (startRound r b now)"
  by (simp add: room_inv_def startRound_def)

lemma inv_createRoom: "rooms_inv k rs \<Longrightarrow> rooms_inv k (snd (createRoom rs c p n now))"
  by (simp add: createRoom_def Let_def rooms_inv_upd room_inv_def)

lemma inv_addPlayerToRoom: "rooms_inv k rs \<Longrightarrow> rooms_inv k (snd (addPlayerToRoom rs c p n))"
  by (auto simp: addPlayerToRoom_def Let_def room_inv_def
        intro!: rooms_inv_upd dest: rooms_inv_at split: option.splits)

lemma inv_removePlayerFromRoom: "rooms_inv k rs \<Longrightarrow> rooms_inv k (snd (removePlayerFromRoom rs c p))"
  by (auto simp: removePlayerFromRoom_def Let_def room_inv_def
        intro!: rooms_inv_upd dest: rooms_inv_at split: option.splits list.splits)

lemma inv_clearBuzzVote: "rooms_inv k rs \<Longrightarrow> rooms_inv k (snd (clearBuzzVote rs c))"
  by (auto simp: clearBuzzVote_def Let_def room_inv_def
        intro!: rooms_inv_upd dest: rooms_inv_at split: option.splits)

lemma inv_resetGame: "rooms_inv k rs \<Longrightarrow> rooms_inv k (snd (resetGame rs c))"
  by (auto simp: resetGame_def Let_def room_inv_def
        intro!: rooms_inv_upd dest: rooms_inv_at split: option.splits)

lemma inv_startGame: "rooms_inv k rs \<Longrightarrow> rooms_inv k (snd (startGame rs c sh b now))"
proof (cases "rs c")
  case None
  then show "rooms_inv k rs \<Longrightarrow> ?thesis" by (simp add: startGame_def)
next
  case (Some r)
  assume inv: "rooms_inv k rs"
  let ?r1 = "r\<lparr> gameState := playing, currentRound := 1 \<rparr>"
  have r1: "room_inv k ?r1" using rooms_inv_at [OF inv Some] by (simp add: room_inv_def)
  obtain ok r2 where a: "assignRoles ?r1 sh = (ok, r2)" by (cases "assignRoles ?r1 sh")
  have r2: "room_inv k r2" using room_inv_assignRoles [of k ?r1 sh] a r1 by simp
  show ?thesis
    using Some a r2 inv
    by (cases ok) (simp_all add: startGame_def Let_def rooms_inv_upd room_inv_startRound)
qed

lemma inv_endRound:
  "rooms_inv k rs \<Longrightarrow> rooms_inv k (snd (endRound rs c fc nf sh b now))"
proof (cases "rs c")
  case None
  then show "rooms_inv k rs \<Longrightarrow> ?thesis" by (simp add: endRound_def)
next
  case (Some r)
  assume inv: "rooms_inv k rs"
  have r: "room_inv k r" using rooms_inv_at [OF inv Some] .
  show ?thesis
  proof (cases "currentRound r \<ge> totalRounds r")
    case True
    then show ?thesis using Some inv r
      by (auto simp: endRound_def Let_def room_inv_def intro!: rooms_inv_upd split: prod.splits)
  next
    case False
    let ?r1 = "r\<lparr> currentRound := currentRound r + 1 \<rparr>"
    have r1: "room_inv k ?r1" using r by (simp add: room_inv_def)
    obtain ok r2 where a: "assignRoles ?r1 sh = (ok, r2)" by (cases "assignRoles ?r1 sh")
    have r2: "room_inv k r2" using room_inv_assignRoles [of k ?r1 sh] a r1 by simp
    show ?thesis
      using Some a r2 inv False
      by (cases ok) (simp_all add: endRound_def Let_def rooms_inv_upd room_inv_startRound)
  qed
qed

lemma inv_pauseRoundTimer:
  assumes "rooms_inv k rs"
  shows "rooms_inv k (pauseRoundTimer rs c now)"
proof (cases "rs c")
  case None
  then show ?thesis using assms by (simp add: pauseRoundTimer_def)
next
  case (Some r)
  have r: "room_inv k r" using rooms_inv_at [OF assms Some] .
  have "room_inv k (r\<lparr> timerPaused := True, pausedTimeRemaining := js_max0 (remaining r now) \<rparr>)"
    using r
    by (auto simp: room_inv_def remaining_def js_max0_def js_sub_def js_floor_div1000_def)
  then show ?thesis
    using Some assms by (simp add: pauseRoundTimer_def rooms_inv_upd)
qed

lemma inv_resumeRoundTimer:
  assumes "rooms_inv k rs" and "\<And>r. rs c = Some r \<Longrightarrow> activeVote r = None"
  shows "rooms_inv k (resumeRoundTimer rs c now)"
proof (cases "rs c")
  case None
  then show ?thesis using assms by (simp add: resumeRoundTimer_def)
next
  case (Some r)
  have r: "room_inv k r" using rooms_inv_at [OF assms(1) Some] .
  have v: "activeVote r = None" using assms(2) Some .
  show ?thesis
  proof (cases "timerPaused r")
    case False
    then show ?thesis using Some assms(1) by (simp add: resumeRoundTimer_def)
  next
    case True
    have "room_inv k (r\<lparr> roundStartTime :=
                         js_sub (Num now)
                           (js_mul (js_sub (Num (roundDuration r)) (pausedTimeRemaining r)) (Num 1000)),
                       timerPaused := False, pausedTimeRemaining := Undefined \<rparr>)"
      using v r True by (auto simp: room_inv_def js_sub_def js_mul_def)
    then show ?thesis
      using Some True assms(1) by (simp add: resumeRoundTimer_def rooms_inv_upd)
  qed
qed

lemma inv_on_buzz:
  assumes "rooms_inv k rs"
  shows "rooms_inv k (on_buzz rs p c now)"
proof (cases "rs c")
  case None
  then show ?thesis using assms by (simp add: on_buzz_def handleBuzz_def)
next
  case (Some r)
  have r: "room_inv k r" using rooms_inv_at [OF assms Some] .
  show ?thesis
  proof (cases "gameState r = playing")
    case False
    then show ?thesis using Some assms by (simp add: on_buzz_def handleBuzz_def)
  next
    case True
    show ?thesis
    proof (cases "Map_get (players r) p")
      case None
      have "room_inv k (r\<lparr> buzzedPlayer := Some p \<rparr>)" using r by (simp add: room_inv_def)
      then show ?thesis
        using Some True None assms by (simp add: on_buzz_def handleBuzz_def rooms_inv_upd)
    next
      case (Some pl)
      show ?thesis
      proof (cases "disabled pl")
        case True
        then show ?thesis
          using \<open>rs c = Some r\<close> \<open>gameState r = playing\<close> Some assms
          by (simp add: on_buzz_def handleBuzz_def)
      next
        case False
        let ?r1 = "r\<lparr> buzzedPlayer := Some p,
                      activeVote := Some \<lparr> initiatorId = p, initiatorName = name pl,
                        type_vote = ''vote_kick'', votes = [], skips = [],
                        startTime = now, duration = 60000 \<rparr> \<rparr>"
        have eq: "on_buzz rs p c now = pauseRoundTimer (rs(c \<mapsto> ?r1)) c now"
          using \<open>rs c = Some r\<close> \<open>gameState r = playing\<close> Some False
          by (simp add: on_buzz_def handleBuzz_def Let_def)
        have "room_inv k (if timerPaused ?r1 then ?r1
                        else ?r1\<lparr> timerPaused := True,
                                  pausedTimeRemaining := js_max0 (remaining ?r1 now) \<rparr>)"
          using r
          by (auto simp: room_inv_def remaining_def js_max0_def js_sub_def js_floor_div1000_def)
        then show ?thesis
          using assms unfolding eq
          by (auto simp: pauseRoundTimer_def intro!: rooms_inv_upd)
      qed
    qed
  qed
qed

lemma inv_castBuzzVote: "rooms_inv k rs \<Longrightarrow> rooms_inv k (snd (castBuzzVote rs c p t))"
proof (cases "rs c")
  case None
  then show "rooms_inv k rs \<Longrightarrow> ?thesis" by (simp add: castBuzzVote_def)
next
  case (Some r)
  assume inv: "rooms_inv k rs"
  have r: "room_inv k r" using rooms_inv_at [OF inv Some] .
  show ?thesis
  proof (cases "activeVote r")
    case None
    then show ?thesis using Some inv by (simp add: castBuzzVote_def)
  next
    case (Some v)
    have "room_inv k (r\<lparr> activeVote := Some v' \<rparr>)" for v'
      using r Some by (simp add: room_inv_def)
    then show ?thesis
      using \<open>rs c = Some r\<close> Some inv
      by (simp add: castBuzzVote_def Let_def rooms_inv_upd)
  qed
qed

lemma clearBuzzVote_no_vote:
  "snd (clearBuzzVote rs c) c = Some r \<Longrightarrow> activeVote r = None"
  by (auto simp: clearBuzzVote_def Let_def split: option.splits)

lemma inv_handleBuzzVoteEnd:
  assumes "rooms_inv k rs"
  shows "rooms_inv k (handleBuzzVoteEnd rs c now)"
proof (cases "rs c")
  case None
  then show ?thesis using assms by (simp add: handleBuzzVoteEnd_def)
next
  case (Some r)
  have r: "room_inv k r" using rooms_inv_at [OF assms Some] .
  have upd: "rooms_inv k (rs(c \<mapsto> r'))"
    if "activeVote r' = activeVote r" "timerPaused r' = timerPaused r"
       "roundStartTime r' = roundStartTime r" "pausedTimeRemaining r' = pausedTimeRemaining r" for r'
    using room_inv_cong [OF that] r assms by (simp add: rooms_inv_upd)
  have dis: "activeVote (disablePlayer r k) = activeVote r"
    "timerPaused (disablePlayer r k) = timerPaused r"
    "roundStartTime (disablePlayer r k) = roundStartTime r"
    "pausedTimeRemaining (disablePlayer r k) = pausedTimeRemaining r" for k
    by (simp_all add: disablePlayer_def split: option.splits)
  have resume: "rooms_inv k (resumeRoundTimer (snd (clearBuzzVote (rs(c \<mapsto> r')) c)) c now)"
    if "rooms_inv k (rs(c \<mapsto> r'))" for r'
    by (intro inv_resumeRoundTimer inv_clearBuzzVote that) (rule clearBuzzVote_no_vote)
  show ?thesis
  proof (cases "getBuzzVoteResult r")
    case None
    then show ?thesis using Some assms by (simp add: handleBuzzVoteEnd_def)
  next
    case (Some res)
    show ?thesis
      using \<open>rs c = Some r\<close> Some
      by (auto simp: handleBuzzVoteEnd_def Let_def dis
            intro!: resume inv_clearBuzzVote upd)
  qed
qed

lemma inv_on_castBuzzVote: "rooms_inv k rs \<Longrightarrow> rooms_inv k (on_castBuzzVote rs p c t now)"
  using inv_castBuzzVote [of k rs c p t]
  by (auto simp: on_castBuzzVote_def inv_handleBuzzVoteEnd split: prod.splits ret.splits)

lemma inv_on_playerReady: "rooms_inv k rs \<Longrightarrow> rooms_inv k (on_playerReady rs p c)"
  by (auto simp: on_playerReady_def getRoom_def room_inv_def
        intro!: rooms_inv_upd dest: rooms_inv_at split: option.splits)

lemma inv_on_submitFix: "rooms_inv k rs \<Longrightarrow> rooms_inv k (on_submitFix rs p c f)"
  by (auto simp: on_submitFix_def room_inv_def
        intro!: rooms_inv_upd dest: rooms_inv_at split: option.splits ret.splits)

lemma inv_on_submitBug: "rooms_inv k rs \<Longrightarrow> rooms_inv k (on_submitBug rs p c f)"
  by (auto simp: on_submitBug_def getRoom_def room_inv_def
        intro!: rooms_inv_upd dest: rooms_inv_at split: option.splits)

lemma inv_on_leaveRoom: "rooms_inv k rs \<Longrightarrow> rooms_inv k (on_leaveRoom rs p c)"
  by (auto simp: on_leaveRoom_def getRoom_def Let_def inv_removePlayerFromRoom inv_clearBuzzVote
        split: option.splits)

lemma inv_on_disconnect: "rooms_inv k rs \<Longrightarrow> rooms_inv k (on_disconnect rs p c)"
  by (auto simp: on_disconnect_def getRoom_def Let_def inv_removePlayerFromRoom inv_clearBuzzVote
        split: option.splits)

lemma inv_cleanupOldRooms: "rooms_inv k rs \<Longrightarrow> rooms_inv k (cleanupOldRooms rs now)"
  by (auto simp: cleanupOldRooms_def rooms_inv_def split: option.splits if_splits)

lemma inv_handle: "rooms_inv k rs \<Longrightarrow> rooms_inv k (handle e rs)"
proof (cases e)
  case (CreateRoom c p n now)
  then show "rooms_inv k rs \<Longrightarrow> ?thesis" by (simp add: on_createRoom_def inv_createRoom)
next
  case (JoinRoom c p n)
  then show "rooms_inv k rs \<Longrightarrow> ?thesis"
    by (auto simp: on_joinRoom_def getRoom_def inv_addPlayerToRoom split: option.splits)
next
  case (PlayerReady p c)
  then show "rooms_inv k rs \<Longrightarrow> ?thesis" by (simp add: inv_on_playerReady)
next
  case (StartGame p c sh b now)
  then show "rooms_inv k rs \<Longrightarrow> ?thesis"
    by (auto simp: on_startGame_def getRoom_def inv_startGame split: option.splits)
next
  case (Buzz p c now)
  then show "rooms_inv k rs \<Longrightarrow> ?thesis" by (simp add: inv_on_buzz)
next
  case (CastBuzzVote p c t now)
  then show "rooms_inv k rs \<Longrightarrow> ?thesis" by (simp add: inv_on_castBuzzVote)
next
  case (SubmitFix p c f)
  then show "rooms_inv k rs \<Longrightarrow> ?thesis" by (simp add: inv_on_submitFix)
next
  case (SubmitBug p c f)
  then show "rooms_inv k rs \<Longrightarrow> ?thesis" by (simp add: inv_on_submitBug)
next
  case (PlayAgain c)
  then show "rooms_inv k rs \<Longrightarrow> ?thesis" by (simp add: on_playAgain_def inv_resetGame)
next
  case (LeaveRoom p c)
  then show "rooms_inv k rs \<Longrightarrow> ?thesis" by (simp add: inv_on_leaveRoom)
next
  case (Disconnect p c)
  then show "rooms_inv k rs \<Longrightarrow> ?thesis" by (simp add: inv_on_disconnect)
next
  case (RoundTick c fc nf sh b now)
  then show "rooms_inv k rs \<Longrightarrow> ?thesis"
    by (auto simp: roundTick_def getRoom_def handleEndRound_def inv_endRound split: option.splits)
next
  case (EndRoundDue c fc nf sh b now)
  then show "rooms_inv k rs \<Longrightarrow> ?thesis" by (simp add: handleEndRound_def inv_endRound)
next
  case (VoteTimeout c now)
  then show "rooms_inv k rs \<Longrightarrow> ?thesis" by (simp add: inv_handleBuzzVoteEnd)
next
  case (EmptyTimeout c)
  then show "rooms_inv k rs \<Longrightarrow> ?thesis"
    by (auto simp: emptyTimeout_def rooms_inv_del split: option.splits)
next
  case (CleanupOldRooms now)
  then show "rooms_inv k rs \<Longrightarrow> ?thesis" by (simp add: inv_cleanupOldRooms)
qed

lemma reachable_rooms_inv: "reachable rs \<Longrightarrow> rooms_inv k rs"
  by (induction rule: reachable.induct) (simp_all add: rooms_inv_def inv_handle [unfolded rooms_inv_def])

subsection \<open>A vote pauses the clock\<close>

lemma reachable_runs:
  "reachable run_lobby" "reachable run_playing" "reachable run_buzzed" "reachable run_split"
  unfolding run_lobby_def run_playing_def run_buzzed_def run_split_def
  by (intro reachable.intros)+

text \<open>
  C4. In every room of every registry a run can reach, an open vote has the round
  timer paused: never is a vote open while the clock runs. Every handler and timer
  callback keeps it so: if it holds in all rooms before an event, it holds in all rooms
  after it.
\<close>

theorem vote_pauses_clock:
  "(reachable rs \<and> rs roomCode = Some r \<and> activeVote r \<noteq> None \<longrightarrow> timerPaused r)
   \<and> ((\<forall>c r0. rs c = Some r0 \<longrightarrow> activeVote r0 \<noteq> None \<longrightarrow> timerPaused r0)
        \<and> handle e rs roomCode = Some r' \<and> activeVote r' \<noteq> None \<longrightarrow> timerPaused r')"
proof (intro conjI impI)
  assume a: "reachable rs \<and> rs roomCode = Some r \<and> activeVote r \<noteq> None"
  then have "rooms_inv False rs" using reachable_rooms_inv by blast
  then have "room_inv False r" using a rooms_inv_at by blast
  then show "timerPaused r" using a by (simp add: room_inv_def)
next
  assume a: "(\<forall>c r0. rs c = Some r0 \<longrightarrow> activeVote r0 \<noteq> None \<longrightarrow> timerPaused r0)
             \<and> handle e rs roomCode = Some r' \<and> activeVote r' \<noteq> None"
  then have "rooms_inv False rs" by (simp add: rooms_inv_def room_inv_def)
  then have "rooms_inv False (handle e rs)" by (rule inv_handle)
  then have "room_inv False r'" using a rooms_inv_at by blast
  then show "timerPaused r'" using a by (simp add: room_inv_def)
qed

text \<open>
  The scenario after the buzz of \<^verbatim>\<open>p2\<close>, and after the vote of \<^verbatim>\<open>p3\<close> that follows.
\<close>

theorem vote_pauses_clock_witness:
  "reachable run_buzzed
   \<and> run_buzzed ''ABCD'' = Some (room_at run_buzzed ''ABCD'')
   \<and> map_option initiatorId (activeVote (room_at run_buzzed ''ABCD'')) = Some ''p2''
   \<and> timerPaused (room_at run_buzzed ''ABCD'')
   \<and> handle (CastBuzzVote ''p3'' ''ABCD'' ''p1'' 40000) run_buzzed ''ABCD''
       = Some (room_at run_voted ''ABCD'')
   \<and> map_option votes (activeVote (room_at run_voted ''ABCD'')) = Some [(''p3'', ''p1'')]
   \<and> timerPaused (room_at run_voted ''ABCD'')"
proof -
  let ?r = "room_at run_buzzed ''ABCD''"
  let ?r' = "room_at run_voted ''ABCD''"
  have h1: "reachable run_buzzed" by (rule reachable_runs)
  have h2: "run_buzzed ''ABCD'' = Some ?r" by code_simp
  have c1: "map_option initiatorId (activeVote ?r) = Some ''p2''" by code_simp
  have h3: "activeVote ?r \<noteq> None" using c1 by auto
  have h4: "handle (CastBuzzVote ''p3'' ''ABCD'' ''p1'' 40000) run_buzzed ''ABCD'' = Some ?r'"
    by code_simp
  have c2: "map_option votes (activeVote ?r') = Some [(''p3'', ''p1'')]" by code_simp
  have h5: "activeVote ?r' \<noteq> None" using c2 by auto
  have all: "\<forall>c r0. run_buzzed c = Some r0 \<longrightarrow> activeVote r0 \<noteq> None \<longrightarrow> timerPaused r0"
    using vote_pauses_clock [where rs = run_buzzed] h1 by blast
  have "timerPaused ?r"
    using vote_pauses_clock [where rs = run_buzzed and roomCode = "''ABCD''" and r = ?r] h1 h2 h3
    by blast
  moreover have "timerPaused ?r'"
    using vote_pauses_clock
            [where rs = run_buzzed and roomCode = "''ABCD''" and r' = ?r'
               and e = "CastBuzzVote ''p3'' ''ABCD'' ''p1'' 40000"]
          all h4 h5
    by blast
  ultimately show ?thesis using h1 h2 c1 h4 c2 by simp
qed

subsection \<open>Pausing and resuming the round timer\<close>

text \<open>
  What the timer does while its flag is fresh. In a room of a reachable registry:
  pausing a running timer at time \<open>now\<close> stores \<^verbatim>\<open>max(0, roundDuration - elapsed)\<close> with
  \<^verbatim>\<open>elapsed = floor((now - roundStartTime) / 1000)\<close>; resuming a paused timer at time
  \<open>now\<close> rewrites \<^verbatim>\<open>roundStartTime\<close> so that the remaining time computed at \<open>now\<close> is the
  stored \<^verbatim>\<open>pausedTimeRemaining\<close>; and a vote that ends without a clear majority closes
  the vote, disables nobody and resumes the timer with the stored time.
\<close>

lemma pause_resume_stored_time:
  "(reachable rs \<and> rs roomCode = Some r \<and> \<not> timerPaused r \<longrightarrow>
      (\<exists>s r1. toNumber (roundStartTime r) = Some s
         \<and> pauseRoundTimer rs roomCode now roomCode = Some r1
         \<and> timerPaused r1
         \<and> pausedTimeRemaining r1 = Num (max 0 (roundDuration r - (now - s) div 1000))))
   \<and> (reachable rs \<and> rs roomCode = Some r \<and> timerPaused r \<longrightarrow>
      (\<exists>p r2. pausedTimeRemaining r = Num p
         \<and> resumeRoundTimer rs roomCode now roomCode = Some r2
         \<and> \<not> timerPaused r2
         \<and> remaining r2 now = Num p))
   \<and> (reachable rs \<and> rs roomCode = Some r
        \<and> getBuzzVoteResult r = Some res \<and> \<not> hasClearMajority res \<longrightarrow>
      (\<exists>p r2. pausedTimeRemaining r = Num p
         \<and> handleBuzzVoteEnd rs roomCode now roomCode = Some r2
         \<and> activeVote r2 = None \<and> players r2 = players r
         \<and> \<not> timerPaused r2
         \<and> remaining r2 now = Num p))"
proof (intro conjI impI)
  assume a: "reachable rs \<and> rs roomCode = Some r \<and> \<not> timerPaused r"
  then have "rooms_inv True rs" using reachable_rooms_inv by blast
  then have "room_inv True r" using a rooms_inv_at by blast
  then obtain s where s: "toNumber (roundStartTime r) = Some s"
    by (auto simp: room_inv_def)
  show "\<exists>s r1. toNumber (roundStartTime r) = Some s
         \<and> pauseRoundTimer rs roomCode now roomCode = Some r1
         \<and> timerPaused r1
         \<and> pausedTimeRemaining r1 = Num (max 0 (roundDuration r - (now - s) div 1000))"
    using a s
    by (simp add: pauseRoundTimer_def remaining_def js_max0_def js_sub_def js_floor_div1000_def)
next
  assume a: "reachable rs \<and> rs roomCode = Some r \<and> timerPaused r"
  then have "rooms_inv True rs" using reachable_rooms_inv by blast
  then have "room_inv True r" using a rooms_inv_at by blast
  then obtain p where p: "pausedTimeRemaining r = Num p"
    using a by (auto simp: room_inv_def)
  show "\<exists>p r2. pausedTimeRemaining r = Num p
         \<and> resumeRoundTimer rs roomCode now roomCode = Some r2
         \<and> \<not> timerPaused r2
         \<and> remaining r2 now = Num p"
    using a p
    by (simp add: resumeRoundTimer_def remaining_def js_sub_def js_mul_def js_floor_div1000_def)
next
  assume a: "reachable rs \<and> rs roomCode = Some r
        \<and> getBuzzVoteResult r = Some res \<and> \<not> hasClearMajority res"
  then have "rooms_inv True rs" using reachable_rooms_inv by blast
  then have inv: "room_inv True r" using a rooms_inv_at by blast
  have "activeVote r \<noteq> None"
    using a by (cases "activeVote r") (simp_all add: getBuzzVoteResult_def)
  then have t: "timerPaused r" using inv by (simp add: room_inv_def)
  then obtain p where p: "pausedTimeRemaining r = Num p"
    using inv by (auto simp: room_inv_def)
  show "\<exists>p r2. pausedTimeRemaining r = Num p
         \<and> handleBuzzVoteEnd rs roomCode now roomCode = Some r2
         \<and> activeVote r2 = None \<and> players r2 = players r
         \<and> \<not> timerPaused r2
         \<and> remaining r2 now = Num p"
    using a p t
    by (simp add: handleBuzzVoteEnd_def clearBuzzVote_def Let_def resumeRoundTimer_def
          remaining_def js_sub_def js_mul_def js_floor_div1000_def)
qed


text \<open>
  In the first game of the scenario the flag is fresh: the round starts at 1000 and
  lasts 90 seconds; a pause at 31500 stores 60 seconds; the split vote times out at
  95000, nobody is disabled, and the remaining time computed at 95000 is 60 seconds.
\<close>

lemma pause_resume_first_game:
  "reachable run_playing \<and> reachable run_split
   \<and> roundStartTime (room_at run_playing ''ABCD'') = Num 1000
   \<and> roundDuration (room_at run_playing ''ABCD'') = 90
   \<and> \<not> timerPaused (room_at run_playing ''ABCD'')
   \<and> pausedTimeRemaining (room_at (pauseRoundTimer run_playing ''ABCD'' 31500) ''ABCD'') = Num 60
   \<and> timerPaused (room_at run_split ''ABCD'')
   \<and> pausedTimeRemaining (room_at run_split ''ABCD'') = Num 60
   \<and> remaining (room_at (resumeRoundTimer run_split ''ABCD'' 95000) ''ABCD'') 95000 = Num 60
   \<and> map_option hasClearMajority (getBuzzVoteResult (room_at run_split ''ABCD'')) = Some False
   \<and> remaining (room_at (handleBuzzVoteEnd run_split ''ABCD'' 95000) ''ABCD'') 95000 = Num 60
   \<and> players (room_at (handleBuzzVoteEnd run_split ''ABCD'' 95000) ''ABCD'')
       = players (room_at run_split ''ABCD'')"
proof -
  let ?r = "room_at run_playing ''ABCD''"
  let ?q = "room_at run_split ''ABCD''"
  let ?res = "the (getBuzzVoteResult ?q)"
  have p1: "run_playing ''ABCD'' = Some ?r" by code_simp
  have p2: "\<not> timerPaused ?r" by code_simp
  have p3: "roundStartTime ?r = Num 1000" "roundDuration ?r = 90" by code_simp+
  have q1: "run_split ''ABCD'' = Some ?q" by code_simp
  have q2: "timerPaused ?q" by code_simp
  have q3: "pausedTimeRemaining ?q = Num 60" by code_simp
  have q4: "getBuzzVoteResult ?q = Some ?res" by code_simp
  have q5: "\<not> hasClearMajority ?res" by code_simp
  obtain s r1 where a: "toNumber (roundStartTime ?r) = Some s"
      "pauseRoundTimer run_playing ''ABCD'' 31500 ''ABCD'' = Some r1"
      "pausedTimeRemaining r1 = Num (max 0 (roundDuration ?r - (31500 - s) div 1000))"
    using pause_resume_stored_time
            [where rs = run_playing and roomCode = "''ABCD''" and r = ?r and now = 31500]
          reachable_runs(2) p1 p2
    by blast
  have a': "pausedTimeRemaining (room_at (pauseRoundTimer run_playing ''ABCD'' 31500) ''ABCD'') = Num 60"
    using a p3 by (simp add: room_at_Some [where rs = "pauseRoundTimer run_playing ''ABCD'' 31500" and roomCode = "''ABCD''", OF a(2)])
  obtain p r2 where b: "pausedTimeRemaining ?q = Num p"
      "resumeRoundTimer run_split ''ABCD'' 95000 ''ABCD'' = Some r2"
      "remaining r2 95000 = Num p"
    using pause_resume_stored_time
            [where rs = run_split and roomCode = "''ABCD''" and r = ?q and now = 95000]
          reachable_runs(4) q1 q2
    by blast
  have b': "remaining (room_at (resumeRoundTimer run_split ''ABCD'' 95000) ''ABCD'') 95000 = Num 60"
    using b q3 by (simp add: room_at_Some [where rs = "resumeRoundTimer run_split ''ABCD'' 95000" and roomCode = "''ABCD''", OF b(2)])
  obtain p' r3 where c: "pausedTimeRemaining ?q = Num p'"
      "handleBuzzVoteEnd run_split ''ABCD'' 95000 ''ABCD'' = Some r3"
      "players r3 = players ?q" "remaining r3 95000 = Num p'"
    using pause_resume_stored_time
            [where rs = run_split and roomCode = "''ABCD''" and r = ?q and now = 95000
               and res = ?res]
          reachable_runs(4) q1 q4 q5
    by blast
  have c': "remaining (room_at (handleBuzzVoteEnd run_split ''ABCD'' 95000) ''ABCD'') 95000 = Num 60"
    "players (room_at (handleBuzzVoteEnd run_split ''ABCD'' 95000) ''ABCD'') = players ?q"
    using c q3 by (simp_all add: room_at_Some [where rs = "handleBuzzVoteEnd run_split ''ABCD'' 95000" and roomCode = "''ABCD''", OF c(2)])
  have d: "map_option hasClearMajority (getBuzzVoteResult ?q) = Some False"
    by code_simp
  show ?thesis
    using reachable_runs(2) reachable_runs(4) p2 p3 q2 q3 a' b' c' d
    by simp
qed

text \<open>
  C5. In a playing room a buzz is to freeze \<^verbatim>\<open>max(0, roundDuration - elapsed)\<close>, and a
  vote without a clear majority is to resume the round with that frozen time, not with
  the full duration. The second game of the scenario starts at 100000 with the pause
  flag of the first game still set and 90 seconds still stored: the branch of
  \<^verbatim>\<open>handleBuzzVoteEnd\<close> that ends the game, \<^verbatim>\<open>resetGame\<close> and \<^verbatim>\<open>startRound\<close> all leave
  \<^verbatim>\<open>timerPaused\<close> and \<^verbatim>\<open>pausedTimeRemaining\<close> as they are. At the buzz at 180000, when 10
  seconds remain, \<^verbatim>\<open>pauseRoundTimer\<close> returns at its guard and stores nothing. When the
  vote times out at 240000 with no ballot, nobody is disabled and the timer resumes
  with 90 seconds, the full duration.
\<close>

theorem stale_pause_flag_full_duration:
  "gameState (room_at run_voted_out ''ABCD'') = results
   \<and> timerPaused (room_at run_voted_out ''ABCD'')
   \<and> pausedTimeRemaining (room_at run_voted_out ''ABCD'') = Num 90
   \<and> gameState (room_at run_second_game ''ABCD'') = playing
   \<and> roundStartTime (room_at run_second_game ''ABCD'') = Num 100000
   \<and> roundDuration (room_at run_second_game ''ABCD'') = 90
   \<and> activeVote (room_at run_second_game ''ABCD'') = None
   \<and> timerPaused (room_at run_second_game ''ABCD'')
   \<and> pausedTimeRemaining (room_at run_second_game ''ABCD'') = Num 90
   \<and> remaining (room_at run_second_game ''ABCD'') 180000 = Num 10
   \<and> map_option initiatorId (activeVote (room_at run_second_buzz ''ABCD'')) = Some ''p2''
   \<and> map_option votes (activeVote (room_at run_second_buzz ''ABCD'')) = Some []
   \<and> timerPaused (room_at run_second_buzz ''ABCD'')
   \<and> pausedTimeRemaining (room_at run_second_buzz ''ABCD'') = Num 90
   \<and> map_option hasClearMajority (getBuzzVoteResult (room_at run_second_buzz ''ABCD''))
       = Some False
   \<and> gameState (room_at run_second_resumed ''ABCD'') = playing
   \<and> activeVote (room_at run_second_resumed ''ABCD'') = None
   \<and> map disabled (Map_values (players (room_at run_second_resumed ''ABCD'')))
       = [False, False, False]
   \<and> \<not> timerPaused (room_at run_second_resumed ''ABCD'')
   \<and> roundStartTime (room_at run_second_resumed ''ABCD'') = Num 240000
   \<and> remaining (room_at run_second_resumed ''ABCD'') 240000 = Num 90"
  by code_simp

end
